theory Spec2Isabelle
  imports Main "HOL-Library.Sublist"
begin

section \<open>The argument translator of az-ssh-wrapper\<close>

text \<open>
  The program \<^verbatim>\<open>az_ssh_wrapper.py\<close> parses an OpenSSH-style argument vector with
  Python's \<^verbatim>\<open>getopt.getopt\<close>, sets the four Azure Arc options aside, drops the
  \<^verbatim>\<open>-o Control...\<close> options, and replaces the process by \<^verbatim>\<open>az ssh\<close> with
  the translated arguments.

  The model is a shallow embedding. A Python \<^verbatim>\<open>str\<close> is a \<^typ>\<open>string\<close>; the
  program only ever compares characters with ASCII ones. An exception is the left
  summand of a sum type. \<^verbatim>\<open>sys.argv[1:]\<close> and the result of
  \<^verbatim>\<open>shutil.which("az")\<close> are parameters of \<open>main\<close>.
\<close>

subsection \<open>Exceptions\<close>

text \<open>
  \<^verbatim>\<open>getopt.GetoptError(msg, opt)\<close> and the \<^verbatim>\<open>IndexError\<close> of
  \<^verbatim>\<open>[].pop(0)\<close>. \<open>str_of\<close> is Python's \<^verbatim>\<open>str(err)\<close>.
\<close>

datatype exception = GetoptError string string | IndexError string

fun str_of :: "exception \<Rightarrow> string" where
  "str_of (GetoptError msg opt) = msg"
| "str_of (IndexError msg) = msg"

type_synonym parsed_option = "string \<times> string"

subsection \<open>The standard library's getopt\<close>

text \<open>
  \<^verbatim>\<open>
  def short_has_arg(opt, shortopts):
      for i in range(len(shortopts)):
          if opt == shortopts[i] != ':':
              return shortopts.startswith(':', i+1)
      raise GetoptError(_('option -%s not recognized') % opt, opt)
  \<close>
\<close>

fun short_has_arg :: "char \<Rightarrow> string \<Rightarrow> exception + bool" where
  "short_has_arg opt [] =
     Inl (GetoptError (''option -'' @ [opt] @ '' not recognized'') [opt])"
| "short_has_arg opt (c # shortopts) =
     (if opt = c \<and> c \<noteq> CHR '':'' then Inr (prefix '':'' shortopts)
      else short_has_arg opt shortopts)"

text \<open>
  \<^verbatim>\<open>
  def do_shorts(opts, optstring, shortopts, args):
      while optstring != '':
          opt, optstring = optstring[0], optstring[1:]
          if short_has_arg(opt, shortopts):
              if optstring == '':
                  if not args:
                      raise GetoptError(_('option -%s requires argument') % opt, opt)
                  optstring, args = args[0], args[1:]
              optarg, optstring = optstring, ''
          else:
              optarg = ''
          opts.append(('-' + opt, optarg))
      return opts, args
  \<close>
  One equation per state of the loop: the empty \<open>optstring\<close> leaves it, and an
  iteration continues with the rest of \<open>optstring\<close>, which is empty after an option
  that takes a value.
\<close>

fun do_shorts ::
  "parsed_option list \<Rightarrow> string \<Rightarrow> string \<Rightarrow> string list
     \<Rightarrow> exception + (parsed_option list \<times> string list)" where
  "do_shorts opts [] shortopts args = Inr (opts, args)"
| "do_shorts opts (opt # optstring) shortopts args =
     (case short_has_arg opt shortopts of
        Inl err \<Rightarrow> Inl err
      | Inr True \<Rightarrow>
          (if optstring = [] then
             (case args of
                [] \<Rightarrow> Inl (GetoptError (''option -'' @ [opt] @ '' requires argument'') [opt])
              | a # args' \<Rightarrow> do_shorts (opts @ [(''-'' @ [opt], a)]) [] shortopts args')
           else do_shorts (opts @ [(''-'' @ [opt], optstring)]) [] shortopts args)
      | Inr False \<Rightarrow> do_shorts (opts @ [(''-'' @ [opt], [])]) optstring shortopts args)"

text \<open>
  \<^verbatim>\<open>
  def long_has_args(opt, longopts):
      possibilities = [o for o in longopts if o.startswith(opt)]
      if not possibilities:
          raise GetoptError(_('option --%s not recognized') % opt, opt)
      if opt in possibilities:
          return False, opt
      elif opt + '=' in possibilities:
          return True, opt
      if len(possibilities) > 1:
          raise GetoptError(_('option --%s not a unique prefix') % opt, opt)
      assert len(possibilities) == 1
      unique_match = possibilities[0]
      has_arg = unique_match.endswith('=')
      if has_arg:
          unique_match = unique_match[:-1]
      return has_arg, unique_match
  \<close>
\<close>

definition long_has_args :: "string \<Rightarrow> string list \<Rightarrow> exception + (bool \<times> string)" where
  "long_has_args opt longopts =
     (let possibilities = filter (\<lambda>o'. prefix opt o') longopts in
      if possibilities = [] then
        Inl (GetoptError (''option --'' @ opt @ '' not recognized'') opt)
      else if opt \<in> set possibilities then Inr (False, opt)
      else if opt @ ''='' \<in> set possibilities then Inr (True, opt)
      else if length possibilities > 1 then
        Inl (GetoptError (''option --'' @ opt @ '' not a unique prefix'') opt)
      else
        (let unique_match = hd possibilities;
             has_arg = suffix ''='' unique_match
         in Inr (has_arg, if has_arg then butlast unique_match else unique_match)))"

text \<open>
  \<^verbatim>\<open>
  def do_longs(opts, opt, longopts, args):
      try:
          i = opt.index('=')
      except ValueError:
          optarg = None
      else:
          opt, optarg = opt[:i], opt[i+1:]
      has_arg, opt = long_has_args(opt, longopts)
      if has_arg:
          if optarg is None:
              if not args:
                  raise GetoptError(_('option --%s requires argument') % opt, opt)
              optarg, args = args[0], args[1:]
      elif optarg is not None:
          raise GetoptError(_('option --%s must not have an argument') % opt, opt)
      opts.append(('--' + opt, optarg or ''))
      return opts, args
  \<close>
\<close>

definition split_eq :: "string \<Rightarrow> string \<times> string option" where
  "split_eq opt =
     (if CHR ''='' \<in> set opt
      then (takeWhile (\<lambda>c. c \<noteq> CHR ''='') opt, Some (tl (dropWhile (\<lambda>c. c \<noteq> CHR ''='') opt)))
      else (opt, None))"

definition do_longs ::
  "parsed_option list \<Rightarrow> string \<Rightarrow> string list \<Rightarrow> string list
     \<Rightarrow> exception + (parsed_option list \<times> string list)" where
  "do_longs opts opt0 longopts args =
     (case split_eq opt0 of (opt1, optarg) \<Rightarrow>
      (case long_has_args opt1 longopts of
         Inl err \<Rightarrow> Inl err
       | Inr (has_arg, opt) \<Rightarrow>
           if has_arg then
             (case optarg of
                None \<Rightarrow>
                  (case args of
                     [] \<Rightarrow> Inl (GetoptError (''option --'' @ opt @ '' requires argument'') opt)
                   | a # args' \<Rightarrow> Inr (opts @ [(''--'' @ opt, a)], args'))
              | Some v \<Rightarrow> Inr (opts @ [(''--'' @ opt, v)], args))
           else
             (case optarg of
                Some v \<Rightarrow>
                  Inl (GetoptError (''option --'' @ opt @ '' must not have an argument'') opt)
              | None \<Rightarrow> Inr (opts @ [(''--'' @ opt, [])], args))))"

text \<open>
  \<^verbatim>\<open>
  def getopt(args, shortopts, longopts = []):
      opts = []
      ...
      while args and args[0].startswith('-') and args[0] != '-':
          if args[0] == '--':
              args = args[1:]
              break
          if args[0].startswith('--'):
              opts, args = do_longs(opts, args[0][2:], longopts, args[1:])
          else:
              opts, args = do_shorts(opts, args[0][1:], shortopts, args[1:])
      return opts, args
  \<close>
  \<open>getopt_loop\<close> is the while loop, started by \<open>getopt\<close> with no option parsed. The
  loop ends because \<open>do_longs\<close> and \<open>do_shorts\<close> return a suffix of the arguments
  they are given.
\<close>

function getopt_loop ::
  "parsed_option list \<Rightarrow> string list \<Rightarrow> string \<Rightarrow> string list
     \<Rightarrow> exception + (parsed_option list \<times> string list)" where
  "getopt_loop opts [] shortopts longopts = Inr (opts, [])"
| "getopt_loop opts (a # args) shortopts longopts =
     (if prefix ''-'' a \<and> a \<noteq> ''-'' then
        if a = ''--'' then Inr (opts, args)
        else if prefix ''--'' a then
          (case do_longs opts (drop 2 a) longopts args of
             Inl err \<Rightarrow> Inl err
           | Inr (opts', args') \<Rightarrow> getopt_loop opts' args' shortopts longopts)
        else
          (case do_shorts opts (drop 1 a) shortopts args of
             Inl err \<Rightarrow> Inl err
           | Inr (opts', args') \<Rightarrow> getopt_loop opts' args' shortopts longopts)
      else Inr (opts, a # args))"
  by pat_completeness auto
termination
proof (relation "measure (\<lambda>(opts, args, shortopts, longopts). length args)")
  have shorts: "length args' \<le> length args"
    if "do_shorts opts optstring shortopts args = Inr (opts', args')"
    for opts optstring shortopts args opts' args'
    using that
    by (induction opts optstring shortopts args rule: do_shorts.induct)
       (auto split: sum.splits bool.splits if_splits list.splits)
  have longs: "length args' \<le> length args"
    if "do_longs opts opt longopts args = Inr (opts', args')"
    for opts opt longopts args opts' args'
    using that
    by (auto simp: do_longs_def
             split: prod.splits sum.splits if_splits option.splits list.splits)
  show "wf (measure (\<lambda>(opts, args, shortopts, longopts). length args))"
    by simp
  show "((opts', args', shortopts, longopts), (opts, a # args, shortopts, longopts))
          \<in> measure (\<lambda>(opts, args, shortopts, longopts). length args)"
    if "do_longs opts (drop 2 a) longopts args = Inr x" and "(opts', args') = x"
    for opts a args shortopts longopts x opts' args'
    using that longs [of opts "drop 2 a" longopts args opts' args'] by auto
  show "((opts', args', shortopts, longopts), (opts, a # args, shortopts, longopts))
          \<in> measure (\<lambda>(opts, args, shortopts, longopts). length args)"
    if "do_shorts opts (drop 1 a) shortopts args = Inr x" and "(opts', args') = x"
    for opts a args shortopts longopts x opts' args'
    using that shorts [of opts "drop 1 a" shortopts args opts' args'] by auto
qed

definition getopt ::
  "string list \<Rightarrow> string \<Rightarrow> string list \<Rightarrow> exception + (parsed_option list \<times> string list)" where
  "getopt args shortopts longopts = getopt_loop [] args shortopts longopts"

subsection \<open>The wrapper\<close>

text \<open>
  \<^verbatim>\<open>
  def usage():
      usage = """..."""
      print(usage)
  \<close>
  The text starts with a newline, and every line of it ends with one.
\<close>

definition usage_text :: string where
  "usage_text = concat (map (\<lambda>l. l @ ''\<newline>'')
     [[],
      ''SSH wrapper for az ssh'',
      [],
      ''Usage:'',
      [],
      ''This wrapper emulates OpenSSH, but translates the arguments and'',
      ''supplies them to az ssh so that it can be used by Ansible as the'',
      ''ansible_ssh_executable.'',
      [],
      ''It also filters out ControlMaster and ControlPersist options, as these'',
      ''appear to block for the duration of the specified ControlPersist value'',
      ''when passed to az ssh. See the following GitHub issue for details:'',
      ''https://github.com/Azure/azure-cli-extensions/issues/7285'',
      [],
      ''Additional options for Azure Arc:'',
      ''    --arc                   Use Azure Arc mode'',
      ''    --subscription VALUE    Azure subscription ID'',
      ''    --resource-group VALUE  Azure resource group name'',
      ''    --local-user VALUE      Username to connect as'',
      [],
      ''This wrapper supports all arguments supported by OpenSSH 8.9p1:'',
      [],
      ''    az-ssh [-46AaCfGgKkMNnqsTtVvXxYy] [-B bind_interface]'',
      ''           [-b bind_address] [-c cipher_spec] [-D [bind_address:]port]'',
      ''           [-E log_file] [-e escape_char] [-F configfile] [-I pkcs11]'',
      ''           [-i identity_file] [-J [user@]host[:port]] [-L address]'',
      ''           [-l login_name] [-m mac_spec] [-O ctl_cmd] [-o option] [-p port]'',
      ''           [-Q query_option] [-R address] [-S ctl_path] [-W host:port]'',
      ''           [-w local_tun[:remote_tun]] destination [command [argument ...]]'',
      [],
      ''See the ssh man page for details.'',
      [],
      ''Example:'',
      [],
      ''    az-ssh 1.2.3.4'',
      ''    az-ssh --arc --subscription '' @ [CHR 0x22] @ ''subid'' @ [CHR 0x22] @
        '' --resource-group '' @ [CHR 0x22] @ ''rg'' @ [CHR 0x22] @
        '' --local-user '' @ [CHR 0x22] @ ''admin'' @ [CHR 0x22] @ '' server1''])"

text \<open>
  \<^verbatim>\<open>
  def opt_filter(opt):
      return not (opt[0] == "-o" and opt[1].startswith("Control"))
  \<close>
\<close>

definition opt_filter :: "parsed_option \<Rightarrow> bool" where
  "opt_filter opt = (\<not> (fst opt = ''-o'' \<and> prefix ''Control'' (snd opt)))"

text \<open>
  The strings of \<open>main\<close>:
  \<^verbatim>\<open>
      options = "46AaCfGgKkMNnqsTtVvXxYyB:b:c:D:E:e:f:I:i:J:L:l:m:O:o:p:Q:R:S:W:w:"
      long_options = ["arc", "subscription=", "resource-group=", "local-user="]
  \<close>
\<close>

definition options :: string where
  "options = ''46AaCfGgKkMNnqsTtVvXxYyB:b:c:D:E:e:f:I:i:J:L:l:m:O:o:p:Q:R:S:W:w:''"

definition long_options :: "string list" where
  "long_options = [''arc'', ''subscription='', ''resource-group='', ''local-user='']"

text \<open>
  The variables that the first loop of \<open>main\<close> assigns, and one iteration of it:
  \<^verbatim>\<open>
      for o, a in opts:
          if o == "--arc":
              arc_mode = True
          elif o == "--subscription":
              subscription = a
          elif o == "--resource-group":
              resource_group = a
          elif o == "--local-user":
              local_user = a
          else:
              filtered_opts.append((o, a))
  \<close>
\<close>

record locals =
  arc_mode :: bool
  subscription :: "string option"
  resource_group :: "string option"
  local_user :: "string option"
  filtered_opts :: "parsed_option list"

definition initial_locals :: locals where
  "initial_locals =
     \<lparr>arc_mode = False, subscription = None, resource_group = None, local_user = None,
      filtered_opts = []\<rparr>"

fun assign_opt :: "locals \<Rightarrow> parsed_option \<Rightarrow> locals" where
  "assign_opt s (o', a) =
     (if o' = ''--arc'' then s\<lparr>arc_mode := True\<rparr>
      else if o' = ''--subscription'' then s\<lparr>subscription := Some a\<rparr>
      else if o' = ''--resource-group'' then s\<lparr>resource_group := Some a\<rparr>
      else if o' = ''--local-user'' then s\<lparr>local_user := Some a\<rparr>
      else s\<lparr>filtered_opts := filtered_opts s @ [(o', a)]\<rparr>)"

fun assign_opts :: "locals \<Rightarrow> parsed_option list \<Rightarrow> locals" where
  "assign_opts s [] = s"
| "assign_opts s (opt # opts) = assign_opts (assign_opt s opt) opts"

text \<open>
  The second loop:
  \<^verbatim>\<open>
      ssh_opts = []
      for opt in filter(opt_filter, filtered_opts):
          ssh_opts += filter(lambda o: o, opt)
  \<close>
  A string is truthy when it is not empty.
\<close>

fun collect_ssh_opts :: "string list \<Rightarrow> parsed_option list \<Rightarrow> string list" where
  "collect_ssh_opts ssh_opts [] = ssh_opts"
| "collect_ssh_opts ssh_opts (opt # opts) =
     collect_ssh_opts (ssh_opts @ filter (\<lambda>o'. o' \<noteq> []) [fst opt, snd opt]) opts"

text \<open>
  How the program ends: \<^verbatim>\<open>sys.exit(status)\<close> after the lines it has printed on
  standard output (one string for each call of \<^verbatim>\<open>print\<close>), or
  \<^verbatim>\<open>os.execvp(file, args)\<close>.
\<close>

datatype outcome = Exit "string list" int | Execvp string "string list"

text \<open>
  A value is truthy, for the \<^verbatim>\<open>if subscription:\<close> tests, when it is neither
  \<^verbatim>\<open>None\<close> nor the empty string.
\<close>

fun truthy :: "string option \<Rightarrow> bool" where
  "truthy None = False"
| "truthy (Some v) = (v \<noteq> [])"

text \<open>
  \<^verbatim>\<open>
      exec_args = [az_path, "ssh"]
      if arc_mode:
          exec_args.append("arc")
          if subscription:
              exec_args.extend(["--subscription", subscription])
          if resource_group:
              exec_args.extend(["--resource-group", resource_group])
          if local_user:
              exec_args.extend(["--local-user", local_user])
          exec_args.extend(["--name", destination])
      else:
          exec_args.extend(["--name", destination])
      if ssh_opts or args:
          exec_args.extend(["--", *ssh_opts, *args])
  \<close>
\<close>

definition build_exec_args ::
  "string \<Rightarrow> locals \<Rightarrow> string \<Rightarrow> string list \<Rightarrow> string list \<Rightarrow> string list" where
  "build_exec_args az_path s destination ssh_opts args =
     (let exec_args = [az_path, ''ssh''];
          exec_args =
            (if arc_mode s then
               (let exec_args = exec_args @ [''arc''];
                    exec_args =
                      (if truthy (subscription s)
                       then exec_args @ [''--subscription'', the (subscription s)]
                       else exec_args);
                    exec_args =
                      (if truthy (resource_group s)
                       then exec_args @ [''--resource-group'', the (resource_group s)]
                       else exec_args);
                    exec_args =
                      (if truthy (local_user s)
                       then exec_args @ [''--local-user'', the (local_user s)]
                       else exec_args)
                in exec_args @ [''--name'', destination])
             else exec_args @ [''--name'', destination])
      in if ssh_opts \<noteq> [] \<or> args \<noteq> []
         then exec_args @ [''--''] @ ssh_opts @ args
         else exec_args)"

text \<open>
  \<^verbatim>\<open>
  def main():
      try:
          opts, args = getopt.getopt(sys.argv[1:], options, long_options)
          destination = args.pop(0)
      except (getopt.GetoptError, IndexError) as err:
          print(f"Error: {err}")
          usage()
          sys.exit(2)
      az_path = shutil.which("az")
      az_path = f'"{az_path}"'
      ...
      os.execvp("az", exec_args)
  \<close>
  \<open>which_az\<close> is what \<^verbatim>\<open>shutil.which("az")\<close> returns (a path or
  \<^verbatim>\<open>None\<close>) and \<open>argv\<close> is \<^verbatim>\<open>sys.argv[1:]\<close>.
\<close>

definition usage_exit :: "exception \<Rightarrow> outcome" where
  "usage_exit err = Exit [''Error: '' @ str_of err, usage_text] 2"

definition quoted :: "string option \<Rightarrow> string" where
  "quoted az_path =
     [CHR 0x22] @ (case az_path of None \<Rightarrow> ''None'' | Some p \<Rightarrow> p) @ [CHR 0x22]"

definition main :: "string option \<Rightarrow> string list \<Rightarrow> outcome" where
  "main which_az argv =
     (case getopt argv options long_options of
        Inl err \<Rightarrow> usage_exit err
      | Inr (opts, args0) \<Rightarrow>
          (case args0 of
             [] \<Rightarrow> usage_exit (IndexError ''pop from empty list'')
           | destination # args \<Rightarrow>
               (let az_path = quoted which_az;
                    s = assign_opts initial_locals opts;
                    ssh_opts = collect_ssh_opts [] (filter opt_filter (filtered_opts s))
                in Execvp ''az'' (build_exec_args az_path s destination ssh_opts args))))"

text \<open>
  The InvocationPlan of the specification is the list of tokens after the subcommand:
  the arguments of the call without the quoted path and \<^verbatim>\<open>"ssh"\<close>.
\<close>

fun plan :: "outcome \<Rightarrow> string list option" where
  "plan (Execvp file exec_args) = Some (drop 2 exec_args)"
| "plan (Exit out status) = None"

subsection \<open>Notions of the specification\<close>

text \<open>
  The four options that \<open>main\<close> consumes itself and never forwards.
\<close>

definition is_extension :: "parsed_option \<Rightarrow> bool" where
  "is_extension opt =
     (fst opt \<in> {''--arc'', ''--subscription'', ''--resource-group'', ''--local-user''})"

text \<open>
  The forwarded options: the parsed options that are not extension options, in the
  order of the parse.
\<close>

definition forwarded :: "parsed_option list \<Rightarrow> parsed_option list" where
  "forwarded opts = filter (\<lambda>opt. \<not> is_extension opt) opts"

text \<open>
  The flattening rule: the non-empty parts of an option, name first.
\<close>

definition flatten :: "parsed_option \<Rightarrow> string list" where
  "flatten opt = filter (\<lambda>t. t \<noteq> []) [fst opt, snd opt]"

text \<open>
  The forwarded-option tokens of the plan: the surviving forwarded options, flattened.
\<close>

definition ssh_tokens :: "parsed_option list \<Rightarrow> string list" where
  "ssh_tokens opts = concat (map flatten (filter opt_filter (forwarded opts)))"

text \<open>
  The name/value pair of an extension option: the last value given for it, when there
  is one and it is not empty.
\<close>

definition ext_pair :: "string \<Rightarrow> parsed_option list \<Rightarrow> string list" where
  "ext_pair name opts =
     (case map_of (rev opts) name of
        None \<Rightarrow> []
      | Some v \<Rightarrow> if v = [] then [] else [name, v])"

text \<open>
  The tokens between the subcommand and \<^verbatim>\<open>--name\<close>.
\<close>

definition mode_tokens :: "parsed_option list \<Rightarrow> string list" where
  "mode_tokens opts =
     (if ''--arc'' \<in> fst ` set opts
      then [''arc''] @ ext_pair ''--subscription'' opts @ ext_pair ''--resource-group'' opts
           @ ext_pair ''--local-user'' opts
      else [])"

text \<open>
  The end of the plan: the separator, the forwarded-option tokens and the trailing
  positional arguments, when there is any of them.
\<close>

definition passthrough :: "string list \<Rightarrow> string list \<Rightarrow> string list" where
  "passthrough toks args = (if toks = [] \<and> args = [] then [] else [''--''] @ toks @ args)"

text \<open>
  A run of complete options: an argument vector that \<open>getopt\<close> consumes entirely as
  options \<open>po\<close>, and after which it still reads options (a vector that ends with the
  terminator \<^verbatim>\<open>--\<close> is consumed entirely too, but then the token
  \<^verbatim>\<open>--\<close> added after it stays a positional argument).
\<close>

definition option_run :: "string list \<Rightarrow> parsed_option list \<Rightarrow> bool" where
  "option_run pre po =
     (getopt pre options long_options = Inr (po, []) \<and>
      getopt (pre @ [''--'']) options long_options = Inr (po, []))"

text \<open>
  The test of the loop of \<open>getopt\<close>: a token that starts with a hyphen and is not the
  single hyphen is read as an option (or as the terminator \<^verbatim>\<open>--\<close>).
\<close>

definition is_option_token :: "string \<Rightarrow> bool" where
  "is_option_token a = (prefix ''-'' a \<and> a \<noteq> ''-'')"

text \<open>
  The short flags that take no value, and an argument that is a cluster of them:
  a hyphen and one or more of these letters.
\<close>

definition no_value_options :: string where
  "no_value_options = ''46AaCfGgKkMNnqsTtVvXxYy''"

definition no_value_flags :: "string \<Rightarrow> bool" where
  "no_value_flags a =
     (case a of
        [] \<Rightarrow> False
      | c # cs \<Rightarrow> c = CHR ''-'' \<and> cs \<noteq> [] \<and> list_all (\<lambda>c. c \<in> set no_value_options) cs)"

text \<open>
  The options that \<open>getopt\<close> returns for such a cluster, and their tokens in the plan.
\<close>

definition flag_options :: "string \<Rightarrow> parsed_option list" where
  "flag_options a = map (\<lambda>c. ([CHR ''-'', c], [])) (tl a)"

definition flag_tokens :: "string \<Rightarrow> string list" where
  "flag_tokens a = map (\<lambda>c. [CHR ''-'', c]) (tl a)"

text \<open>
  The vector sets arc mode: it parses, and \<^verbatim>\<open>--arc\<close> is among its options.
\<close>

definition arc_requested :: "string list \<Rightarrow> bool" where
  "arc_requested argv =
     (case getopt argv options long_options of
        Inl err \<Rightarrow> False
      | Inr (opts, args) \<Rightarrow> ''--arc'' \<in> fst ` set opts)"

text \<open>
  The three extension options that take a value.
\<close>

definition mode_dependent :: "string list" where
  "mode_dependent = [''--subscription'', ''--resource-group'', ''--local-user'']"

text \<open>
  The short flags that take a value according to the option string of \<open>main\<close>.
\<close>

definition value_options :: string where
  "value_options = ''BbcDEeIiJLlmOopQRSWw''"

section \<open>Properties\<close>

subsection \<open>What \<open>main\<close> assembles\<close>

lemma collect_ssh_opts_eq:
  "collect_ssh_opts acc opts = acc @ concat (map flatten opts)"
  by (induction opts arbitrary: acc) (simp_all add: flatten_def)

lemma filtered_opts_assign:
  "filtered_opts (assign_opts s opts) = filtered_opts s @ forwarded opts"
  by (induction opts arbitrary: s) (auto simp: forwarded_def is_extension_def)

lemma arc_mode_assign:
  "arc_mode (assign_opts s opts) = (arc_mode s \<or> ''--arc'' \<in> fst ` set opts)"
  by (induction opts arbitrary: s) (auto split: if_splits)

lemma subscription_assign:
  "subscription (assign_opts s opts) =
     (case map_of (rev opts) ''--subscription'' of None \<Rightarrow> subscription s | Some v \<Rightarrow> Some v)"
  by (induction opts arbitrary: s) (auto simp: map_add_def split: option.splits)

lemma resource_group_assign:
  "resource_group (assign_opts s opts) =
     (case map_of (rev opts) ''--resource-group'' of None \<Rightarrow> resource_group s | Some v \<Rightarrow> Some v)"
  by (induction opts arbitrary: s) (auto simp: map_add_def split: option.splits)

lemma local_user_assign:
  "local_user (assign_opts s opts) =
     (case map_of (rev opts) ''--local-user'' of None \<Rightarrow> local_user s | Some v \<Rightarrow> Some v)"
  by (induction opts arbitrary: s) (auto simp: map_add_def split: option.splits)

lemma build_exec_args_eq:
  "build_exec_args az (assign_opts initial_locals opts) d toks args =
     [az, ''ssh''] @ mode_tokens opts @ [''--name'', d] @ passthrough toks args"
  by (auto simp: build_exec_args_def Let_def mode_tokens_def ext_pair_def passthrough_def
        arc_mode_assign subscription_assign resource_group_assign local_user_assign
        initial_locals_def split: option.splits)

lemma main_eq:
  assumes "getopt argv options long_options = Inr (opts, d # args)"
  shows "main w argv =
           Execvp ''az'' ([quoted w, ''ssh''] @ mode_tokens opts @ [''--name'', d]
                          @ passthrough (ssh_tokens opts) args)"
proof -
  have "filtered_opts (assign_opts initial_locals opts) = forwarded opts"
    by (simp add: filtered_opts_assign initial_locals_def)
  then show ?thesis
    using assms
    by (simp add: main_def Let_def build_exec_args_eq collect_ssh_opts_eq ssh_tokens_def)
qed

subsection \<open>The loop of getopt\<close>

text \<open>
  The options already parsed do not influence the parse: they are only extended.
\<close>

lemma do_shorts_prepend:
  "do_shorts (acc @ opts) optstring shortopts args =
     (case do_shorts opts optstring shortopts args of
        Inl err \<Rightarrow> Inl err
      | Inr (opts', args') \<Rightarrow> Inr (acc @ opts', args'))"
proof (induction opts optstring shortopts args rule: do_shorts.induct)
  case (1 opts shortopts args)
  show ?case by simp
next
  case (2 opts opt optstring shortopts args)
  show ?case
  proof (cases "short_has_arg opt shortopts")
    case (Inl err)
    then show ?thesis by simp
  next
    case (Inr b)
    with 2 show ?thesis
      by (cases b; cases args) simp_all
  qed
qed

lemma do_longs_prepend:
  "do_longs (acc @ opts) opt longopts args =
     (case do_longs opts opt longopts args of
        Inl err \<Rightarrow> Inl err
      | Inr (opts', args') \<Rightarrow> Inr (acc @ opts', args'))"
  by (simp add: do_longs_def split: prod.splits sum.splits option.splits list.splits)

lemma getopt_loop_prepend:
  "getopt_loop (acc @ opts) args shortopts longopts =
     (case getopt_loop opts args shortopts longopts of
        Inl err \<Rightarrow> Inl err
      | Inr (opts', args') \<Rightarrow> Inr (acc @ opts', args'))"
proof (induction opts args shortopts longopts rule: getopt_loop.induct)
  case (1 opts shortopts longopts)
  show ?case by simp
next
  case (2 opts a args shortopts longopts)
  show ?case
  proof (cases "prefix ''-'' a \<and> a \<noteq> ''-'' \<and> a \<noteq> ''--''")
    case False
    then show ?thesis by auto
  next
    case opt: True
    show ?thesis
    proof (cases "prefix ''--'' a")
      case True
      show ?thesis
      proof (cases "do_longs opts (drop 2 a) longopts args")
        case (Inl err)
        with opt True show ?thesis by (simp add: do_longs_prepend)
      next
        case (Inr r)
        obtain opts' args' where r: "r = (opts', args')" by (cases r)
        from 2(1) [of "(opts', args')" opts' args'] opt True Inr r show ?thesis
          by (simp add: do_longs_prepend)
      qed
    next
      case False
      show ?thesis
      proof (cases "do_shorts opts (drop 1 a) shortopts args")
        case (Inl err)
        with opt False show ?thesis by (simp add: do_shorts_prepend)
      next
        case (Inr r)
        obtain opts' args' where r: "r = (opts', args')" by (cases r)
        from 2(2) [of "(opts', args')" opts' args'] opt False Inr r show ?thesis
          by (simp add: do_shorts_prepend)
      qed
    qed
  qed
qed

text \<open>
  A step that succeeds does not depend on the arguments after those it has read.
\<close>

lemma do_shorts_append:
  "do_shorts opts optstring shortopts args = Inr (opts', args') \<Longrightarrow>
   do_shorts opts optstring shortopts (args @ rest) = Inr (opts', args' @ rest)"
proof (induction opts optstring shortopts args rule: do_shorts.induct)
  case (1 opts shortopts args)
  then show ?case by simp
next
  case (2 opts opt optstring shortopts args)
  show ?case
  proof (cases "short_has_arg opt shortopts")
    case (Inl err)
    with 2(4) show ?thesis by simp
  next
    case (Inr b)
    with 2 show ?thesis
      by (cases b; cases args) (simp_all split: if_splits)
  qed
qed

lemma do_longs_append:
  "do_longs opts opt longopts args = Inr (opts', args') \<Longrightarrow>
   do_longs opts opt longopts (args @ rest) = Inr (opts', args' @ rest)"
  by (auto simp: do_longs_def split: prod.splits sum.splits option.splits list.splits if_splits)

text \<open>
  After a run of complete options the loop goes on with the rest of the vector.
\<close>

lemma getopt_loop_run:
  "getopt_loop acc pre shortopts longopts = Inr (po, []) \<Longrightarrow>
   getopt_loop acc (pre @ [''--'']) shortopts longopts = Inr (po, []) \<Longrightarrow>
   getopt_loop acc (pre @ rest) shortopts longopts = getopt_loop po rest shortopts longopts"
proof (induction acc pre shortopts longopts rule: getopt_loop.induct)
  case (1 opts shortopts longopts)
  then show ?case by simp
next
  case (2 opts a args shortopts longopts)
  have opt: "prefix ''-'' a \<and> a \<noteq> ''-''"
    using 2(3) by (auto split: if_splits)
  have no_end: "a \<noteq> ''--''"
    using 2(3,4) by (auto split: if_splits)
  show ?case
  proof (cases "prefix ''--'' a")
    case True
    from 2(3) opt no_end True obtain opts' args' where
      step: "do_longs opts (drop 2 a) longopts args = Inr (opts', args')"
      by (auto split: sum.splits)
    have "getopt_loop opts' (args' @ rest) shortopts longopts =
            getopt_loop po rest shortopts longopts"
      using 2(1) [of "(opts', args')" opts' args'] 2(3,4) opt no_end True step
        do_longs_append [OF step, of "[''--'']"]
      by simp
    then show ?thesis
      using opt no_end True do_longs_append [OF step, of rest] by simp
  next
    case False
    from 2(3) opt no_end False obtain opts' args' where
      step: "do_shorts opts (drop 1 a) shortopts args = Inr (opts', args')"
      by (auto split: sum.splits)
    have "getopt_loop opts' (args' @ rest) shortopts longopts =
            getopt_loop po rest shortopts longopts"
      using 2(2) [of "(opts', args')" opts' args'] 2(3,4) opt no_end False step
        do_shorts_append [OF step, of "[''--'']"]
      by simp
    then show ?thesis
      using opt no_end False do_shorts_append [OF step, of rest] by simp
  qed
qed

lemma option_run_getopt:
  assumes "option_run pre po"
  shows "getopt (pre @ rest) options long_options =
           (case getopt rest options long_options of
              Inl err \<Rightarrow> Inl err
            | Inr (opts, args) \<Rightarrow> Inr (po @ opts, args))"
  using assms getopt_loop_run [of "[]" pre options long_options po rest]
    getopt_loop_prepend [of po "[]" rest options long_options]
  by (simp add: option_run_def getopt_def)

subsection \<open>Positional arguments and clusters of flags\<close>

lemma getopt_loop_positional:
  "\<not> is_option_token d \<Longrightarrow>
   getopt_loop opts (d # rest) shortopts longopts = Inr (opts, d # rest)"
  by (auto simp: is_option_token_def)

lemma getopt_positional:
  "\<not> is_option_token d \<Longrightarrow> getopt (d # rest) options long_options = Inr ([], d # rest)"
  unfolding getopt_def by (rule getopt_loop_positional)

lemma no_value_all:
  "list_all (\<lambda>c. short_has_arg c options = Inr False \<and> c \<noteq> CHR ''-'' \<and> c \<noteq> CHR ''o'')
     no_value_options"
  by code_simp

lemma short_has_arg_no_value:
  "c \<in> set no_value_options \<Longrightarrow> short_has_arg c options = Inr False"
  using no_value_all unfolding list_all_iff by blast

lemma no_value_not_hyphen:
  "c \<in> set no_value_options \<Longrightarrow> c \<noteq> CHR ''-'' \<and> c \<noteq> CHR ''o''"
  using no_value_all unfolding list_all_iff by blast

lemma do_shorts_no_value:
  "list_all (\<lambda>c. c \<in> set no_value_options) cs \<Longrightarrow>
   do_shorts opts cs options args = Inr (opts @ map (\<lambda>c. ([CHR ''-'', c], [])) cs, args)"
proof (induction cs arbitrary: opts)
  case Nil
  show ?case by simp
next
  case (Cons c cs)
  from Cons.prems have c: "short_has_arg c options = Inr False"
    by (intro short_has_arg_no_value) simp
  from Cons.prems have "list_all (\<lambda>c. c \<in> set no_value_options) cs" by simp
  from Cons.IH [OF this] c show ?case by simp
qed

lemma getopt_loop_no_value_flags:
  assumes "list_all no_value_flags fs"
  shows "getopt_loop acc (fs @ rest) options long_options =
           getopt_loop (acc @ concat (map flag_options fs)) rest options long_options"
  using assms
proof (induction fs arbitrary: acc)
  case Nil
  show ?case by simp
next
  case (Cons a fs)
  from Cons.prems obtain cs where a: "a = CHR ''-'' # cs" and cs: "cs \<noteq> []"
    and sub: "list_all (\<lambda>c. c \<in> set no_value_options) cs"
    by (auto simp: no_value_flags_def split: list.splits)
  from cs sub have "hd cs \<noteq> CHR ''-''"
    using no_value_not_hyphen [of "hd cs"] by (cases cs) simp_all
  with cs have np: "\<not> prefix ''--'' a" "a \<noteq> ''-''" "a \<noteq> ''--''" "prefix ''-'' a"
    unfolding a by (cases cs; simp)+
  from Cons.prems have "list_all no_value_flags fs" by simp
  from Cons.IH [OF this] np a do_shorts_no_value [OF sub] show ?case
    by (simp add: flag_options_def)
qed

lemma option_run_no_value_flags:
  assumes "list_all no_value_flags fs"
  shows "option_run fs (concat (map flag_options fs))"
  unfolding option_run_def getopt_def
  using getopt_loop_no_value_flags [OF assms, of "[]" "[]"]
    getopt_loop_no_value_flags [OF assms, of "[]" "[''--'']"] by simp

lemma flag_options_forwarded:
  assumes "no_value_flags a"
  shows "filter opt_filter (forwarded (flag_options a)) = flag_options a"
    and "''--arc'' \<notin> fst ` set (flag_options a)"
proof -
  from assms have "list_all (\<lambda>c. c \<in> set no_value_options) (tl a)"
    by (auto simp: no_value_flags_def split: list.splits)
  then have *: "\<forall>c \<in> set (tl a). c \<noteq> CHR ''o''"
    using no_value_not_hyphen unfolding list_all_iff by blast
  have "\<forall>opt \<in> set (flag_options a). opt_filter opt \<and> \<not> is_extension opt"
    using * by (auto simp: flag_options_def opt_filter_def is_extension_def)
  then show "filter opt_filter (forwarded (flag_options a)) = flag_options a"
    by (simp add: forwarded_def)
  show "''--arc'' \<notin> fst ` set (flag_options a)"
    by (auto simp: flag_options_def)
qed

lemma ssh_tokens_append:
  "ssh_tokens (xs @ ys) = ssh_tokens xs @ ssh_tokens ys"
  by (simp add: ssh_tokens_def forwarded_def)

lemma ssh_tokens_flag_options:
  assumes "list_all no_value_flags fs"
  shows "ssh_tokens (concat (map flag_options fs)) = concat (map flag_tokens fs)"
  using assms
proof (induction fs)
  case Nil
  show ?case by (simp add: ssh_tokens_def forwarded_def)
next
  case (Cons a fs)
  then have a: "no_value_flags a" and fs: "list_all no_value_flags fs" by simp_all
  have "ssh_tokens (flag_options a) = flag_tokens a"
    unfolding ssh_tokens_def flag_options_forwarded(1) [OF a]
    by (simp add: flag_options_def flag_tokens_def flatten_def comp_def)
  with Cons.IH [OF fs] show ?case
    by (simp add: ssh_tokens_append)
qed

lemma mode_tokens_flag_options:
  assumes "list_all no_value_flags fs"
  shows "mode_tokens (concat (map flag_options fs)) = []"
proof -
  have "''--arc'' \<notin> fst ` set (concat (map flag_options fs))"
    using assms flag_options_forwarded(2) unfolding list_all_iff by auto
  then show ?thesis by (simp add: mode_tokens_def)
qed

subsection \<open>End-to-end example 2\<close>

text \<open>
  Claim C2, as the specification states it: for the argument vector
  \<^verbatim>\<open>["-t", "-o", "ControlMaster=auto", "host1"]\<close> the plan is
  \<^verbatim>\<open>["--name", "host1", "--", "t"]\<close>. The program does not produce this plan.
\<close>

theorem example_2_not_bare_t:
  "plan (main None [''-t'', ''-o'', ''ControlMaster=auto'', ''host1''])
     \<noteq> Some [''--name'', ''host1'', ''--'', ''t'']"
  by code_simp

text \<open>
  Claim C2, amended: for the argument vector
  \<^verbatim>\<open>["-t", "-o", "ControlMaster=auto", "host1"]\<close> the plan is
  \<^verbatim>\<open>["--name", "host1", "--", "-t"]\<close>: the Control option is dropped and the
  no-value flag flattens to the single token \<^verbatim>\<open>"-t"\<close>, the name that
  \<open>getopt\<close> returns for it, with its hyphen.
\<close>

theorem example_2_plan:
  "plan (main which_az [''-t'', ''-o'', ''ControlMaster=auto'', ''host1''])
     = Some [''--name'', ''host1'', ''--'', ''-t'']"
  by code_simp

subsection \<open>The flag F\<close>

text \<open>
  Claim C4 says that \<^verbatim>\<open>-F configfile destination\<close> parses and that the option
  is forwarded. The option string of \<open>main\<close> has \<^verbatim>\<open>f:\<close> where the usage text
  has \<^verbatim>\<open>-F configfile\<close>, so \<^verbatim>\<open>-F\<close> is not recognized: the program
  prints the error and the usage text and exits with status 2.
\<close>

theorem flag_F_not_recognized:
  "main which_az [''-F'', ''configfile'', ''host1'']
     = Exit [''Error: option -F not recognized'', usage_text] 2"
  by code_simp

subsection \<open>Vectors of no-value flags\<close>

text \<open>
  Claim C3, as the specification states it: for a vector of no-value short flags and a
  destination, the plan has no separator and no forwarded-option token. It fails for
  \<^verbatim>\<open>["-t", "host1"]\<close>, whose plan has both.
\<close>

theorem separator_after_flag:
  "plan (main None [''-t'', ''host1'']) = Some [''--name'', ''host1'', ''--'', ''-t'']"
  by code_simp

text \<open>
  Claim C3, amended: for every argument vector that consists of clusters of no-value
  short flags (letters of \<^verbatim>\<open>46AaCfGgKkMNnqsTtVvXxYy\<close>) and one destination,
  the plan is \<^verbatim>\<open>--name\<close> and the destination, followed, when there is at
  least one flag, by the separator and one token for each flag, in the order of the
  input. The plan has no separator and no forwarded-option token exactly when no flag
  is given.
\<close>

theorem no_value_flags_plan:
  assumes "list_all no_value_flags fs" and "\<not> is_option_token destination"
  shows "plan (main which_az (fs @ [destination])) =
           Some ([''--name'', destination] @
                 (if fs = [] then [] else [''--''] @ concat (map flag_tokens fs)))"
proof -
  have "getopt (fs @ [destination]) options long_options =
          Inr (concat (map flag_options fs), [destination])"
    using option_run_getopt [OF option_run_no_value_flags [OF assms(1)], of "[destination]"]
      getopt_positional [OF assms(2), of "[]"]
    by simp
  from main_eq [OF this, of which_az] have
    "plan (main which_az (fs @ [destination])) =
       Some ([''--name'', destination] @ passthrough (concat (map flag_tokens fs)) [])"
    by (simp add: ssh_tokens_flag_options [OF assms(1)] mode_tokens_flag_options [OF assms(1)])
  moreover have "concat (map flag_tokens fs) = [] \<longleftrightarrow> fs = []"
    using assms(1)
    by (cases fs) (auto simp: flag_tokens_def no_value_flags_def split: list.splits)
  ultimately show ?thesis
    by (simp add: passthrough_def)
qed

theorem no_value_flags_plan_witness:
  "list_all no_value_flags [''-t'', ''-4Cv''] \<and> \<not> is_option_token ''host1'' \<and>
   plan (main None [''-t'', ''-4Cv'', ''host1'']) =
     Some [''--name'', ''host1'', ''--'', ''-t'', ''-4'', ''-C'', ''-v'']"
proof -
  have h1: "list_all no_value_flags [''-t'', ''-4Cv'']" by code_simp
  have h2: "\<not> is_option_token ''host1''" by code_simp
  show ?thesis
    using no_value_flags_plan [OF h1 h2, of None] h1 h2
    by (simp add: flag_tokens_def)
qed

subsection \<open>The plan of a valid vector\<close>

lemma plan_main:
  assumes "getopt argv options long_options = Inr (opts, d # args)"
  shows "plan (main w argv) =
           Some (mode_tokens opts @ [''--name'', d] @ passthrough (ssh_tokens opts) args)"
  by (simp add: main_eq [OF assms])

subsection \<open>The Control filter\<close>

text \<open>
  Claim C1: for every vector that parses with a destination, the forwarded-option tokens
  of the plan are the flattened forwarded options, in order, without those whose name is
  \<^verbatim>\<open>-o\<close> and whose value starts with \<^verbatim>\<open>Control\<close>; nothing else
  is dropped. So a forwarded option is omitted if and only if its name is
  \<^verbatim>\<open>-o\<close> and \<^verbatim>\<open>Control\<close> is a prefix of its value; the test is
  on characters, so it is case-sensitive, and a value that has \<^verbatim>\<open>Control\<close>
  further inside is kept.
\<close>

theorem control_options_dropped:
  assumes "getopt argv options long_options = Inr (opts, destination # args)"
  shows "plan (main which_az argv) =
           Some (mode_tokens opts @ [''--name'', destination] @
                 passthrough
                   (concat (map flatten
                      (filter (\<lambda>opt. \<not> (fst opt = ''-o'' \<and> prefix ''Control'' (snd opt)))
                         (forwarded opts))))
                   args)"
proof -
  have "opt_filter = (\<lambda>opt. \<not> (fst opt = ''-o'' \<and> prefix ''Control'' (snd opt)))"
    by (rule ext) (simp add: opt_filter_def)
  then show ?thesis
    using plan_main [OF assms, of which_az] by (simp add: ssh_tokens_def)
qed

theorem control_options_dropped_witness:
  "getopt [''-o'', ''ControlMaster=auto'', ''-o'', ''controlPath=x'', ''-oXControl=1'',
           ''-p'', ''Control'', ''host1''] options long_options =
     Inr ([(''-o'', ''ControlMaster=auto''), (''-o'', ''controlPath=x''), (''-o'', ''XControl=1''),
           (''-p'', ''Control'')], [''host1'']) \<and>
   plan (main None [''-o'', ''ControlMaster=auto'', ''-o'', ''controlPath=x'', ''-oXControl=1'',
                    ''-p'', ''Control'', ''host1'']) =
     Some [''--name'', ''host1'', ''--'', ''-o'', ''controlPath=x'', ''-o'', ''XControl=1'',
           ''-p'', ''Control'']"
proof -
  have h: "getopt [''-o'', ''ControlMaster=auto'', ''-o'', ''controlPath=x'', ''-oXControl=1'',
             ''-p'', ''Control'', ''host1''] options long_options =
     Inr ([(''-o'', ''ControlMaster=auto''), (''-o'', ''controlPath=x''), (''-o'', ''XControl=1''),
           (''-p'', ''Control'')], [''host1''])"
    by code_simp
  have e: "mode_tokens [(''-o'', ''ControlMaster=auto''), (''-o'', ''controlPath=x''),
             (''-o'', ''XControl=1''), (''-p'', ''Control'')] @ [''--name'', ''host1''] @
           passthrough
             (concat (map flatten
                (filter (\<lambda>opt. \<not> (fst opt = ''-o'' \<and> prefix ''Control'' (snd opt)))
                   (forwarded [(''-o'', ''ControlMaster=auto''), (''-o'', ''controlPath=x''),
                      (''-o'', ''XControl=1''), (''-p'', ''Control'')])))) [] =
           [''--name'', ''host1'', ''--'', ''-o'', ''controlPath=x'', ''-o'', ''XControl=1'',
            ''-p'', ''Control'']"
    by code_simp
  show ?thesis
    using control_options_dropped [OF h, of None] h unfolding e by simp
qed

subsection \<open>Arc mode\<close>

text \<open>
  Claim C9, as the specification states it: in arc mode the plan has the name/value pair
  of each supplied extension option. It fails for
  \<^verbatim>\<open>["--arc", "--subscription", "", "server1"]\<close>: the subscription option is
  supplied, with an empty value, and the plan has no pair for it.
\<close>

theorem empty_subscription_omitted:
  "getopt [''--arc'', ''--subscription'', '''', ''server1''] options long_options =
     Inr ([(''--arc'', ''''), (''--subscription'', '''')], [''server1'']) \<and>
   plan (main None [''--arc'', ''--subscription'', '''', ''server1'']) =
     Some [''arc'', ''--name'', ''server1'']"
  by code_simp

text \<open>
  Claim C9, amended: for every vector that parses with a destination and with the option
  \<^verbatim>\<open>--arc\<close>, the plan begins with \<^verbatim>\<open>arc\<close>, followed by the
  name/value pairs of \<^verbatim>\<open>--subscription\<close>, \<^verbatim>\<open>--resource-group\<close> and
  \<^verbatim>\<open>--local-user\<close>, in this order, each present when the option is supplied
  and the last value given for it is not empty, and then by \<^verbatim>\<open>--name\<close> and
  the destination. In particular the vector of end-to-end example 3 yields the plan
  that the specification gives.
\<close>

theorem arc_mode_plan:
  "(getopt argv options long_options = Inr (opts, destination # args) \<and>
    ''--arc'' \<in> fst ` set opts \<longrightarrow>
      plan (main which_az argv) =
        Some ([''arc''] @ ext_pair ''--subscription'' opts @ ext_pair ''--resource-group'' opts @
              ext_pair ''--local-user'' opts @ [''--name'', destination] @
              passthrough (ssh_tokens opts) args)) \<and>
   plan (main which_az [''--arc'', ''--subscription'', ''sub1'', ''--resource-group'', ''rg1'',
                        ''--local-user'', ''admin'', ''server1'']) =
     Some [''arc'', ''--subscription'', ''sub1'', ''--resource-group'', ''rg1'',
           ''--local-user'', ''admin'', ''--name'', ''server1'']"
proof (intro conjI impI)
  assume "getopt argv options long_options = Inr (opts, destination # args) \<and>
    ''--arc'' \<in> fst ` set opts"
  then show "plan (main which_az argv) =
        Some ([''arc''] @ ext_pair ''--subscription'' opts @ ext_pair ''--resource-group'' opts @
              ext_pair ''--local-user'' opts @ [''--name'', destination] @
              passthrough (ssh_tokens opts) args)"
    using plan_main [of argv opts destination args which_az] by (simp add: mode_tokens_def)
next
  show "plan (main which_az [''--arc'', ''--subscription'', ''sub1'', ''--resource-group'', ''rg1'',
                        ''--local-user'', ''admin'', ''server1'']) =
     Some [''arc'', ''--subscription'', ''sub1'', ''--resource-group'', ''rg1'',
           ''--local-user'', ''admin'', ''--name'', ''server1'']"
    by code_simp
qed

theorem arc_mode_plan_witness:
  "getopt [''--arc'', ''--local-user'', ''admin'', ''--subscription'', ''old'', ''--resource-group='',
           ''--subscription=sub1'', ''-p'', ''22'', ''server1'', ''uptime'']
     options long_options =
     Inr ([(''--arc'', ''''), (''--local-user'', ''admin''), (''--subscription'', ''old''),
           (''--resource-group'', ''''), (''--subscription'', ''sub1''), (''-p'', ''22'')],
          [''server1'', ''uptime'']) \<and>
   plan (main None [''--arc'', ''--local-user'', ''admin'', ''--subscription'', ''old'',
                    ''--resource-group='', ''--subscription=sub1'', ''-p'', ''22'', ''server1'',
                    ''uptime'']) =
     Some [''arc'', ''--subscription'', ''sub1'', ''--local-user'', ''admin'', ''--name'', ''server1'',
           ''--'', ''-p'', ''22'', ''uptime'']"
proof -
  let ?opts = "[(''--arc'', ''''), (''--local-user'', ''admin''), (''--subscription'', ''old''),
           (''--resource-group'', ''''), (''--subscription'', ''sub1''), (''-p'', ''22'')]"
  let ?argv = "[''--arc'', ''--local-user'', ''admin'', ''--subscription'', ''old'',
             ''--resource-group='', ''--subscription=sub1'', ''-p'', ''22'', ''server1'', ''uptime'']"
  have h: "getopt ?argv options long_options = Inr (?opts, [''server1'', ''uptime''])"
    by code_simp
  have a: "''--arc'' \<in> fst ` set ?opts"
    by simp
  have e: "[''arc''] @ ext_pair ''--subscription'' ?opts @ ext_pair ''--resource-group'' ?opts @
           ext_pair ''--local-user'' ?opts @ [''--name'', ''server1''] @
           passthrough (ssh_tokens ?opts) [''uptime''] =
           [''arc'', ''--subscription'', ''sub1'', ''--local-user'', ''admin'', ''--name'', ''server1'',
            ''--'', ''-p'', ''22'', ''uptime'']"
    by code_simp
  from arc_mode_plan [of ?argv ?opts "''server1''" "[''uptime'']" None] h a
  show ?thesis unfolding e by simp
qed

subsection \<open>Flattening\<close>

lemma do_shorts_names:
  "do_shorts opts optstring shortopts args = Inr (opts', args') \<Longrightarrow>
   list_all (\<lambda>opt. fst opt \<noteq> []) opts \<Longrightarrow> list_all (\<lambda>opt. fst opt \<noteq> []) opts'"
proof (induction opts optstring shortopts args rule: do_shorts.induct)
  case (1 opts shortopts args)
  then show ?case by simp
next
  case (2 opts opt optstring shortopts args)
  let ?named = "list_all (\<lambda>opt. fst opt \<noteq> [])"
  have ext: "?named (opts @ [(''-'' @ [opt], v)])" for v
    using 2(5) by simp
  show ?case
  proof (cases "short_has_arg opt shortopts")
    case (Inl err)
    with 2(4) show ?thesis by simp
  next
    case (Inr b)
    show ?thesis
    proof (cases b)
      case False
      then have b: "b = False" by simp
      with Inr 2(4) have "do_shorts (opts @ [(''-'' @ [opt], [])]) optstring shortopts args
          = Inr (opts', args')" by simp
      from 2(3) [OF Inr b this ext] show ?thesis .
    next
      case True
      then have b: "b = True" by simp
      show ?thesis
      proof (cases "optstring = []")
        case nonempty: False
        with Inr b 2(4) have "do_shorts (opts @ [(''-'' @ [opt], optstring)]) [] shortopts args
            = Inr (opts', args')" by simp
        from 2(2) [OF Inr b nonempty this ext] show ?thesis .
      next
        case empty: True
        show ?thesis
        proof (cases args)
          case Nil
          with Inr b empty 2(4) show ?thesis by simp
        next
          case (Cons a rest)
          with Inr b empty 2(4) have "do_shorts (opts @ [(''-'' @ [opt], a)]) [] shortopts rest
              = Inr (opts', args')" by simp
          from 2(1) [OF Inr b empty Cons this ext] show ?thesis .
        qed
      qed
    qed
  qed
qed

lemma do_longs_names:
  "do_longs opts opt longopts args = Inr (opts', args') \<Longrightarrow>
   list_all (\<lambda>opt. fst opt \<noteq> []) opts \<Longrightarrow> list_all (\<lambda>opt. fst opt \<noteq> []) opts'"
  unfolding do_longs_def
  by (simp split: prod.splits sum.splits option.splits list.splits if_splits) auto

lemma getopt_loop_names:
  "getopt_loop opts args shortopts longopts = Inr (opts', args') \<Longrightarrow>
   list_all (\<lambda>opt. fst opt \<noteq> []) opts \<Longrightarrow> list_all (\<lambda>opt. fst opt \<noteq> []) opts'"
proof (induction opts args shortopts longopts rule: getopt_loop.induct)
  case (1 opts shortopts longopts)
  then show ?case by simp
next
  case (2 opts a args shortopts longopts)
  show ?case
  proof (cases "prefix ''-'' a \<and> a \<noteq> ''-'' \<and> a \<noteq> ''--''")
    case False
    with 2(3,4) show ?thesis by (auto split: if_splits)
  next
    case opt: True
    show ?thesis
    proof (cases "prefix ''--'' a")
      case True
      with 2(3) opt obtain opts1 args1 where
        step: "do_longs opts (drop 2 a) longopts args = Inr (opts1, args1)"
        by (auto split: sum.splits)
      from 2(1) [of "(opts1, args1)" opts1 args1] 2(3) opt True step
        do_longs_names [OF step 2(4)]
      show ?thesis by simp
    next
      case False
      with 2(3) opt obtain opts1 args1 where
        step: "do_shorts opts (drop 1 a) shortopts args = Inr (opts1, args1)"
        by (auto split: sum.splits)
      from 2(2) [of "(opts1, args1)" opts1 args1] 2(3) opt False step
        do_shorts_names [OF step 2(4)]
      show ?thesis by simp
    qed
  qed
qed

lemma getopt_names:
  "getopt argv shortopts longopts = Inr (opts, args) \<Longrightarrow> list_all (\<lambda>opt. fst opt \<noteq> []) opts"
  unfolding getopt_def by (erule getopt_loop_names) simp

lemma flatten_named:
  "fst opt \<noteq> [] \<Longrightarrow> flatten opt = (if snd opt = [] then [fst opt] else [fst opt, snd opt])"
  by (simp add: flatten_def)

lemma ext_pair_no_empty: "name \<noteq> [] \<Longrightarrow> [] \<notin> set (ext_pair name opts)"
  by (cases "map_of (rev opts) name") (simp_all add: ext_pair_def)

lemma mode_tokens_no_empty: "[] \<notin> set (mode_tokens opts)"
  by (simp add: mode_tokens_def ext_pair_no_empty)

lemma ssh_tokens_no_empty: "[] \<notin> set (ssh_tokens opts)"
  by (auto simp: ssh_tokens_def flatten_def)

text \<open>
  Claim C7, as the specification states it, says that no empty token appears anywhere in
  the plan. It fails for \<^verbatim>\<open>["-t", "host1", ""]\<close>: the trailing positional
  arguments are forwarded as they are, the empty one too.
\<close>

theorem empty_argument_forwarded:
  "plan (main None [''-t'', ''host1'', '''']) = Some [''--name'', ''host1'', ''--'', ''-t'', '''']"
  by code_simp

text \<open>
  Claim C7, amended: for every vector that parses with a destination, the plan is the
  mode tokens, \<^verbatim>\<open>--name\<close>, the destination and, after the separator, the
  flattened surviving forwarded options and the trailing positional arguments. Each
  surviving option with an empty value contributes exactly one token, its name; each
  one with a non-empty value contributes exactly two tokens, its name and then its
  value. No empty token is among the mode tokens or the forwarded-option tokens: an
  empty token of the plan is the destination or a trailing positional argument that is
  empty in the input.
\<close>

theorem flattening_tokens:
  assumes "getopt argv options long_options = Inr (opts, destination # args)"
  shows "plan (main which_az argv) =
           Some (mode_tokens opts @ [''--name'', destination] @
                 passthrough (concat (map flatten (filter opt_filter (forwarded opts)))) args) \<and>
         list_all (\<lambda>opt. flatten opt = (if snd opt = [] then [fst opt] else [fst opt, snd opt]))
           (filter opt_filter (forwarded opts)) \<and>
         [] \<notin> set (mode_tokens opts) \<and>
         [] \<notin> set (concat (map flatten (filter opt_filter (forwarded opts))))"
proof -
  have "list_all (\<lambda>opt. fst opt \<noteq> []) (filter opt_filter (forwarded opts))"
    using getopt_names [OF assms] by (simp add: list_all_iff forwarded_def)
  then have "list_all (\<lambda>opt. flatten opt = (if snd opt = [] then [fst opt] else [fst opt, snd opt]))
           (filter opt_filter (forwarded opts))"
    unfolding list_all_iff using flatten_named by blast
  then show ?thesis
    using plan_main [OF assms, of which_az] mode_tokens_no_empty [of opts]
      ssh_tokens_no_empty [of opts]
    by (simp add: ssh_tokens_def)
qed

theorem flattening_tokens_witness:
  "getopt [''-t'', ''-p'', ''22'', ''-o'', ''ControlPath=x'', ''host1'', ''ls'', '''']
     options long_options =
     Inr ([(''-t'', ''''), (''-p'', ''22''), (''-o'', ''ControlPath=x'')], [''host1'', ''ls'', '''']) \<and>
   plan (main None [''-t'', ''-p'', ''22'', ''-o'', ''ControlPath=x'', ''host1'', ''ls'', '''']) =
     Some [''--name'', ''host1'', ''--'', ''-t'', ''-p'', ''22'', ''ls'', ''''] \<and>
   flatten (''-t'', '''') = [''-t''] \<and> flatten (''-p'', ''22'') = [''-p'', ''22'']"
proof -
  let ?argv = "[''-t'', ''-p'', ''22'', ''-o'', ''ControlPath=x'', ''host1'', ''ls'', '''']"
  let ?opts = "[(''-t'', ''''), (''-p'', ''22''), (''-o'', ''ControlPath=x'')]"
  have h: "getopt ?argv options long_options = Inr (?opts, [''host1'', ''ls'', ''''])"
    by code_simp
  have s: "filter opt_filter (forwarded ?opts) = [(''-t'', ''''), (''-p'', ''22'')]"
    by code_simp
  have m: "mode_tokens ?opts = []"
    by code_simp
  from flattening_tokens [OF h, of None] h
  show ?thesis
    unfolding s m by (simp add: passthrough_def)
qed

subsection \<open>The destination after a run of options\<close>

lemma option_run_positional:
  assumes "option_run pre po" and "\<not> is_option_token d"
  shows "getopt (pre @ d # rest) options long_options = Inr (po, d # rest)"
  using option_run_getopt [OF assms(1), of "d # rest"] getopt_positional [OF assms(2), of rest]
  by simp

subsection \<open>Extension options without arc mode\<close>

lemma long_has_args_mode_dependent:
  "long_has_args ''subscription'' long_options = Inr (True, ''subscription'')"
  "long_has_args ''resource-group'' long_options = Inr (True, ''resource-group'')"
  "long_has_args ''local-user'' long_options = Inr (True, ''local-user'')"
  by code_simp+

lemma split_eq_no_eq:
  "CHR ''='' \<notin> set name \<Longrightarrow> split_eq name = (name, None)"
  "CHR ''='' \<notin> set name \<Longrightarrow> split_eq (name @ CHR ''='' # v) = (name, Some v)"
  by (simp_all add: split_eq_def takeWhile_append dropWhile_append)

lemma mode_dependent_names:
  assumes "name \<in> set mode_dependent"
  shows "CHR ''='' \<notin> set (drop 2 name)"
    and "long_has_args (drop 2 name) long_options = Inr (True, drop 2 name)"
    and "CHR ''-'' # CHR ''-'' # drop 2 name = name"
    and "drop 2 (name @ x) = drop 2 name @ x"
    and "is_option_token name \<and> prefix ''--'' name \<and> name \<noteq> ''--''"
    and "is_option_token (name @ ''='' @ v) \<and> prefix ''--'' (name @ ''='' @ v) \<and>
         name @ ''='' @ v \<noteq> ''--''"
proof -
  from assms consider "name = ''--subscription''" | "name = ''--resource-group''"
    | "name = ''--local-user''"
    by (auto simp: mode_dependent_def)
  then have "CHR ''='' \<notin> set (drop 2 name) \<and>
      long_has_args (drop 2 name) long_options = Inr (True, drop 2 name) \<and>
      CHR ''-'' # CHR ''-'' # drop 2 name = name \<and> drop 2 (name @ x) = drop 2 name @ x \<and>
      is_option_token name \<and> prefix ''--'' name \<and> name \<noteq> ''--'' \<and>
      is_option_token (name @ ''='' @ v) \<and> prefix ''--'' (name @ ''='' @ v) \<and>
      name @ ''='' @ v \<noteq> ''--''"
    by cases (simp_all add: long_has_args_mode_dependent is_option_token_def)
  then show "CHR ''='' \<notin> set (drop 2 name)"
    and "long_has_args (drop 2 name) long_options = Inr (True, drop 2 name)"
    and "CHR ''-'' # CHR ''-'' # drop 2 name = name"
    and "drop 2 (name @ x) = drop 2 name @ x"
    and "is_option_token name \<and> prefix ''--'' name \<and> name \<noteq> ''--''"
    and "is_option_token (name @ ''='' @ v) \<and> prefix ''--'' (name @ ''='' @ v) \<and>
         name @ ''='' @ v \<noteq> ''--''"
    by simp_all
qed

lemma do_longs_mode_dependent:
  assumes "name \<in> set mode_dependent"
  shows "do_longs opts (drop 2 name) long_options (v # args) = Inr (opts @ [(name, v)], args)"
    and "do_longs opts (drop 2 (name @ ''='' @ v)) long_options args = Inr (opts @ [(name, v)], args)"
proof -
  note n = mode_dependent_names [OF assms]
  show "do_longs opts (drop 2 name) long_options (v # args) = Inr (opts @ [(name, v)], args)"
    by (simp add: do_longs_def split_eq_no_eq(1) [OF n(1)] n(2) n(3))
  show "do_longs opts (drop 2 (name @ ''='' @ v)) long_options args = Inr (opts @ [(name, v)], args)"
    unfolding n(4)
    by (simp add: do_longs_def split_eq_no_eq(2) [OF n(1)] n(2) n(3))
qed

lemma getopt_loop_long:
  "is_option_token a \<and> prefix ''--'' a \<and> a \<noteq> ''--'' \<Longrightarrow>
   getopt_loop opts (a # args) shortopts longopts =
     (case do_longs opts (drop 2 a) longopts args of
        Inl err \<Rightarrow> Inl err
      | Inr (opts', args') \<Rightarrow> getopt_loop opts' args' shortopts longopts)"
  by (simp add: is_option_token_def)

lemma getopt_loop_mode_dependent:
  assumes "name \<in> set mode_dependent"
  shows "getopt_loop opts (name # v # args) options long_options =
           getopt_loop (opts @ [(name, v)]) args options long_options"
    and "getopt_loop opts ((name @ ''='' @ v) # args) options long_options =
           getopt_loop (opts @ [(name, v)]) args options long_options"
proof -
  note n = mode_dependent_names [OF assms]
  show "getopt_loop opts (name # v # args) options long_options =
           getopt_loop (opts @ [(name, v)]) args options long_options"
    unfolding getopt_loop_long [OF n(5)] do_longs_mode_dependent(1) [OF assms] by simp
  show "getopt_loop opts ((name @ ''='' @ v) # args) options long_options =
           getopt_loop (opts @ [(name, v)]) args options long_options"
    unfolding getopt_loop_long [OF n(6)] do_longs_mode_dependent(2) [OF assms] by simp
qed

lemma mode_dependent_dropped:
  assumes "name \<in> set mode_dependent"
  shows "ssh_tokens (po @ (name, v) # ro) = ssh_tokens (po @ ro)"
    and "''--arc'' \<in> fst ` set (po @ (name, v) # ro) \<longleftrightarrow> ''--arc'' \<in> fst ` set (po @ ro)"
  using assms
  by (auto simp: mode_dependent_def ssh_tokens_def forwarded_def is_extension_def)

lemma main_mode_dependent:
  assumes "name \<in> set mode_dependent"
    and "getopt argv options long_options =
           (case getopt argv' options long_options of
              Inl err \<Rightarrow> Inl err
            | Inr (opts, args) \<Rightarrow> Inr (po @ opts, args))"
    and "getopt argv'' options long_options =
           (case getopt argv' options long_options of
              Inl err \<Rightarrow> Inl err
            | Inr (opts, args) \<Rightarrow> Inr (po @ (name, v) # opts, args))"
    and "\<not> arc_requested argv"
  shows "main which_az argv'' = main which_az argv"
proof (cases "getopt argv' options long_options")
  case (Inl err)
  with assms(2,3) show ?thesis by (simp add: main_def)
next
  case (Inr r)
  obtain ro args where r: "r = (ro, args)" by (cases r)
  from Inr r assms(2) have p: "getopt argv options long_options = Inr (po @ ro, args)"
    by simp
  from Inr r assms(3) have p': "getopt argv'' options long_options = Inr (po @ (name, v) # ro, args)"
    by simp
  show ?thesis
  proof (cases args)
    case Nil
    with p p' show ?thesis by (simp add: main_def)
  next
    case (Cons d rest)
    from assms(4) p have "''--arc'' \<notin> fst ` set (po @ ro)"
      by (simp add: arc_requested_def)
    with mode_dependent_dropped(2) [OF assms(1), of po v ro]
    have "mode_tokens (po @ (name, v) # ro) = []" "mode_tokens (po @ ro) = []"
      by (simp_all add: mode_tokens_def)
    with main_eq [OF p [unfolded Cons], of which_az] main_eq [OF p' [unfolded Cons], of which_az]
      mode_dependent_dropped(1) [OF assms(1), of po v ro]
    show ?thesis by simp
  qed
qed

text \<open>
  Claim C6: when the vector does not set arc mode, an extension option with its value,
  added or removed between two options (after a run \<open>pre\<close> of complete options), does
  not change what the program does: the plan is the same, and where one vector is a
  usage error the other one is the same usage error. The option is written in two
  tokens, name and value, or in one, \<^verbatim>\<open>--name=value\<close>.
\<close>

theorem extension_options_ignored:
  assumes "option_run pre po" and "name \<in> set mode_dependent"
    and "\<not> arc_requested (pre @ post)"
  shows "main which_az (pre @ [name, v] @ post) = main which_az (pre @ post) \<and>
         main which_az (pre @ [name @ ''='' @ v] @ post) = main which_az (pre @ post)"
proof -
  have base: "getopt (pre @ post) options long_options =
           (case getopt post options long_options of
              Inl err \<Rightarrow> Inl err
            | Inr (opts, args) \<Rightarrow> Inr (po @ opts, args))"
    by (rule option_run_getopt [OF assms(1)])
  have cont: "getopt_loop (po @ [(name, v)]) post options long_options =
           (case getopt post options long_options of
              Inl err \<Rightarrow> Inl err
            | Inr (opts, args) \<Rightarrow> Inr (po @ (name, v) # opts, args))"
    using getopt_loop_prepend [of "po @ [(name, v)]" "[]" post options long_options]
    by (simp add: getopt_def split: sum.splits)
  have run: "getopt (pre @ rest) options long_options = getopt_loop po rest options long_options"
    for rest
    using assms(1) getopt_loop_run [of "[]" pre options long_options po rest]
    by (simp add: option_run_def getopt_def)
  have two: "getopt (pre @ [name, v] @ post) options long_options =
           (case getopt post options long_options of
              Inl err \<Rightarrow> Inl err
            | Inr (opts, args) \<Rightarrow> Inr (po @ (name, v) # opts, args))"
    using run [of "[name, v] @ post"] getopt_loop_mode_dependent(1) [OF assms(2), of po v post] cont
    by simp
  have one: "getopt (pre @ [name @ ''='' @ v] @ post) options long_options =
           (case getopt post options long_options of
              Inl err \<Rightarrow> Inl err
            | Inr (opts, args) \<Rightarrow> Inr (po @ (name, v) # opts, args))"
    using run [of "[name @ ''='' @ v] @ post"]
      getopt_loop_mode_dependent(2) [OF assms(2), of po v post] cont
    by simp
  show ?thesis
    using main_mode_dependent [OF assms(2) base two assms(3)]
      main_mode_dependent [OF assms(2) base one assms(3)]
    by simp
qed

theorem extension_options_ignored_witness:
  "option_run [''-t''] [(''-t'', '''')] \<and> ''--resource-group'' \<in> set mode_dependent \<and>
   \<not> arc_requested [''-t'', ''-p'', ''22'', ''host1'', ''ls''] \<and>
   main None [''-t'', ''--resource-group'', ''rg1'', ''-p'', ''22'', ''host1'', ''ls''] =
     main None [''-t'', ''-p'', ''22'', ''host1'', ''ls''] \<and>
   main None [''-t'', ''--resource-group=rg1'', ''-p'', ''22'', ''host1'', ''ls''] =
     main None [''-t'', ''-p'', ''22'', ''host1'', ''ls''] \<and>
   plan (main None [''-t'', ''-p'', ''22'', ''host1'', ''ls'']) =
     Some [''--name'', ''host1'', ''--'', ''-t'', ''-p'', ''22'', ''ls'']"
proof -
  have h1: "option_run [''-t''] [(''-t'', '''')]"
    by code_simp
  have h2: "''--resource-group'' \<in> set mode_dependent"
    by code_simp
  have h3: "\<not> arc_requested ([''-t''] @ [''-p'', ''22'', ''host1'', ''ls''])"
    by code_simp
  have p: "plan (main None [''-t'', ''-p'', ''22'', ''host1'', ''ls'']) =
     Some [''--name'', ''host1'', ''--'', ''-t'', ''-p'', ''22'', ''ls'']"
    by code_simp
  from extension_options_ignored [OF h1 h2 h3, of None "''rg1''"] h1 h2 h3 p
  show ?thesis by simp
qed

subsection \<open>Usage errors\<close>

lemma main_getopt_error:
  "getopt argv options long_options = Inl err \<Longrightarrow>
   main which_az argv = Exit [''Error: '' @ str_of err, usage_text] 2"
  by (simp add: main_def usage_exit_def)

lemma main_no_destination:
  "getopt argv options long_options = Inr (opts, []) \<Longrightarrow>
   main which_az argv = Exit [''Error: pop from empty list'', usage_text] 2"
  by (simp add: main_def usage_exit_def)

lemma option_run_error:
  assumes "option_run pre po" and "getopt rest options long_options = Inl err"
  shows "main which_az (pre @ rest) = Exit [''Error: '' @ str_of err, usage_text] 2"
  using option_run_getopt [OF assms(1), of rest] assms(2)
  by (intro main_getopt_error) simp

lemma short_has_arg_unknown:
  "c \<notin> set shortopts \<or> c = CHR '':'' \<Longrightarrow>
   short_has_arg c shortopts = Inl (GetoptError (''option -'' @ [c] @ '' not recognized'') [c])"
  by (induction shortopts) auto

lemma value_all:
  "list_all (\<lambda>c. short_has_arg c options = Inr True \<and> c \<noteq> CHR ''-'') value_options"
  by code_simp

lemma short_has_arg_value:
  "c \<in> set value_options \<Longrightarrow> short_has_arg c options = Inr True \<and> c \<noteq> CHR ''-''"
  using value_all unfolding list_all_iff by blast

lemma do_shorts_flags_then:
  "list_all (\<lambda>c. c \<in> set no_value_options) fl \<Longrightarrow>
   do_shorts opts (fl @ optstring) options args =
     do_shorts (opts @ map (\<lambda>c. ([CHR ''-'', c], [])) fl) optstring options args"
proof (induction fl arbitrary: opts)
  case Nil
  show ?case by simp
next
  case (Cons c fl)
  from Cons.prems have c: "short_has_arg c options = Inr False"
    by (intro short_has_arg_no_value) simp
  from Cons.prems have "list_all (\<lambda>c. c \<in> set no_value_options) fl" by simp
  from Cons.IH [OF this] c show ?case by simp
qed

lemma getopt_loop_short:
  "is_option_token a \<Longrightarrow> \<not> prefix ''--'' a \<Longrightarrow>
   getopt_loop opts (a # args) shortopts longopts =
     (case do_shorts opts (drop 1 a) shortopts args of
        Inl err \<Rightarrow> Inl err
      | Inr (opts', args') \<Rightarrow> getopt_loop opts' args' shortopts longopts)"
  by (auto simp: is_option_token_def)

lemma cluster_short:
  assumes "list_all (\<lambda>c. c \<in> set no_value_options) fl" and "c \<noteq> CHR ''-''"
  shows "is_option_token (''-'' @ fl @ c # cs)" and "\<not> prefix ''--'' (''-'' @ fl @ c # cs)"
proof -
  have "hd (fl @ c # cs) \<noteq> CHR ''-''"
    using assms no_value_not_hyphen [of "hd fl"] by (cases fl) simp_all
  then show "is_option_token (''-'' @ fl @ c # cs)" and "\<not> prefix ''--'' (''-'' @ fl @ c # cs)"
    by (cases fl; simp add: is_option_token_def)+
qed

lemma getopt_unknown_flag:
  assumes "list_all (\<lambda>c. c \<in> set no_value_options) fl" and "c \<noteq> CHR ''-''"
    and "c \<notin> set options \<or> c = CHR '':''"
  shows "getopt ((''-'' @ fl @ c # cs) # rest) options long_options =
           Inl (GetoptError (''option -'' @ [c] @ '' not recognized'') [c])"
  unfolding getopt_def getopt_loop_short [OF cluster_short [OF assms(1,2)]]
  using do_shorts_flags_then [OF assms(1), of "[]" "c # cs" rest]
    short_has_arg_unknown [OF assms(3)]
  by simp

lemma getopt_missing_value:
  assumes "list_all (\<lambda>c. c \<in> set no_value_options) fl" and "c \<in> set value_options"
  shows "getopt [''-'' @ fl @ [c]] options long_options =
           Inl (GetoptError (''option -'' @ [c] @ '' requires argument'') [c])"
proof -
  note c = short_has_arg_value [OF assms(2)]
  show ?thesis
    unfolding getopt_def getopt_loop_short [OF cluster_short [OF assms(1) conjunct2 [OF c], of "[]"]]
    using do_shorts_flags_then [OF assms(1), of "[]" "[c]" "[]"] c
    by simp
qed

lemma getopt_unknown_long:
  assumes "name \<noteq> []" and "list_all (\<lambda>o'. \<not> prefix (fst (split_eq name)) o') long_options"
  shows "getopt ((''--'' @ name) # rest) options long_options =
           Inl (GetoptError (''option --'' @ fst (split_eq name) @ '' not recognized'')
                  (fst (split_eq name)))"
proof -
  from assms(1) have tok: "is_option_token (''--'' @ name) \<and> prefix ''--'' (''--'' @ name) \<and>
      ''--'' @ name \<noteq> ''--''"
    by (simp add: is_option_token_def)
  from assms(2) have none: "filter (\<lambda>o'. prefix (fst (split_eq name)) o') long_options = []"
    by (simp add: list_all_iff filter_empty_conv)
  obtain opt1 optarg where s: "split_eq name = (opt1, optarg)"
    by (cases "split_eq name")
  with none have "long_has_args opt1 long_options =
      Inl (GetoptError (''option --'' @ opt1 @ '' not recognized'') opt1)"
    by (simp add: long_has_args_def)
  with s have "do_longs [] name long_options rest =
      Inl (GetoptError (''option --'' @ opt1 @ '' not recognized'') opt1)"
    by (simp add: do_longs_def)
  with s show ?thesis
    unfolding getopt_def getopt_loop_long [OF tok] by simp
qed

lemma getopt_missing_long_value:
  assumes "name \<in> set mode_dependent"
  shows "getopt [name] options long_options =
           Inl (GetoptError (''option '' @ name @ '' requires argument'') (drop 2 name))"
proof -
  note n = mode_dependent_names [OF assms]
  have "do_longs [] (drop 2 name) long_options [] =
      Inl (GetoptError (''option --'' @ drop 2 name @ '' requires argument'') (drop 2 name))"
    by (simp add: do_longs_def split_eq_no_eq(1) [OF n(1)] n(2))
  moreover have "''option --'' @ drop 2 name = ''option '' @ name"
    using n(3) by simp
  ultimately show ?thesis
    unfolding getopt_def getopt_loop_long [OF n(5)] by simp
qed

subsection \<open>The form of a vector that parses\<close>

text \<open>
  A step of the loop that succeeds either ignores the arguments after the option, or
  takes the first of them as the value of the option and ignores the others.
\<close>

lemma do_longs_shape:
  assumes "do_longs opts opt longopts args = Inr (opts', args')"
  shows "(args' = args \<and> (\<forall>xs. do_longs opts opt longopts xs = Inr (opts', xs))) \<or>
         (\<exists>v. args = v # args' \<and> (\<forall>xs. do_longs opts opt longopts (v # xs) = Inr (opts', xs)))"
proof -
  obtain opt1 optarg where s: "split_eq opt = (opt1, optarg)"
    by (cases "split_eq opt")
  from assms s obtain has_arg name where l: "long_has_args opt1 longopts = Inr (has_arg, name)"
    by (cases "long_has_args opt1 longopts") (auto simp: do_longs_def)
  show ?thesis
  proof (cases "has_arg \<and> optarg = None")
    case True
    with assms s l obtain v where "args = v # args'" and "opts' = opts @ [(''--'' @ name, v)]"
      by (cases args) (auto simp: do_longs_def)
    moreover from True s l have "do_longs opts opt longopts (v # xs) =
        Inr (opts @ [(''--'' @ name, v)], xs)" for xs
      by (simp add: do_longs_def)
    ultimately show ?thesis by simp
  next
    case False
    with assms s l have same: "args' = args"
      by (cases optarg) (auto simp: do_longs_def split: if_splits)
    from False assms s l have "do_longs opts opt longopts xs = Inr (opts', xs)" for xs
      by (cases optarg) (auto simp: do_longs_def split: if_splits)
    with same show ?thesis by simp
  qed
qed

lemma do_shorts_shape:
  "do_shorts opts optstring shortopts args = Inr (opts', args') \<Longrightarrow>
   (args' = args \<and> (\<forall>xs. do_shorts opts optstring shortopts xs = Inr (opts', xs))) \<or>
   (\<exists>v. args = v # args' \<and>
        (\<forall>xs. do_shorts opts optstring shortopts (v # xs) = Inr (opts', xs)))"
proof (induction opts optstring shortopts args rule: do_shorts.induct)
  case (1 opts shortopts args)
  then show ?case by simp
next
  case (2 opts opt optstring shortopts args)
  show ?case
  proof (cases "short_has_arg opt shortopts")
    case (Inl err)
    with 2(4) show ?thesis by simp
  next
    case (Inr b)
    show ?thesis
    proof (cases b)
      case False
      then have b: "b = False" by simp
      have step: "do_shorts opts (opt # optstring) shortopts xs =
          do_shorts (opts @ [(''-'' @ [opt], [])]) optstring shortopts xs" for xs
        using Inr b by simp
      from 2(4) have "do_shorts (opts @ [(''-'' @ [opt], [])]) optstring shortopts args
          = Inr (opts', args')"
        by (simp only: step)
      from 2(3) [OF Inr b this] show ?thesis
        by (simp only: step)
    next
      case True
      then have b: "b = True" by simp
      show ?thesis
      proof (cases "optstring = []")
        case nonempty: False
        have step: "do_shorts opts (opt # optstring) shortopts xs =
            Inr (opts @ [(''-'' @ [opt], optstring)], xs)" for xs
          using Inr b nonempty by simp
        from 2(4) show ?thesis
          by (simp add: step del: do_shorts.simps)
      next
        case empty: True
        show ?thesis
        proof (cases args)
          case Nil
          with Inr b empty 2(4) show ?thesis by simp
        next
          case (Cons a rest)
          have step: "do_shorts opts (opt # optstring) shortopts (v # xs) =
              Inr (opts @ [(''-'' @ [opt], v)], xs)" for v xs
            using Inr b empty by simp
          from 2(4) Cons show ?thesis
            by (simp add: step del: do_shorts.simps)
        qed
      qed
    qed
  qed
qed

text \<open>
  So a vector that parses is a run of complete options, followed by the positional
  arguments, with the terminator \<^verbatim>\<open>--\<close> between them or with a first positional
  argument that is not read as an option.
\<close>

lemma getopt_loop_extend:
  fixes step :: "string list \<Rightarrow> exception + (parsed_option list \<times> string list)"
  assumes shape: "(rest1 = rest \<and> (\<forall>xs. step xs = Inr (opts1, xs))) \<or>
                  (\<exists>v. rest = v # rest1 \<and> (\<forall>xs. step (v # xs) = Inr (opts1, xs)))"
    and unfold: "\<And>xs. getopt_loop opts (a # xs) shortopts longopts =
                  (case step xs of
                     Inl err \<Rightarrow> Inl err
                   | Inr (opts', args') \<Rightarrow> getopt_loop opts' args' shortopts longopts)"
    and ih: "rest1 = pre1 @ stop @ args"
      "getopt_loop opts1 pre1 shortopts longopts = Inr (res, [])"
      "getopt_loop opts1 (pre1 @ [''--'']) shortopts longopts = Inr (res, [])"
  shows "\<exists>pre. a # rest = pre @ stop @ args \<and>
           getopt_loop opts pre shortopts longopts = Inr (res, []) \<and>
           getopt_loop opts (pre @ [''--'']) shortopts longopts = Inr (res, [])"
  using shape
proof (elim disjE conjE exE)
  assume "rest1 = rest" and all: "\<forall>xs. step xs = Inr (opts1, xs)"
  with ih have "a # rest = (a # pre1) @ stop @ args \<and>
      getopt_loop opts (a # pre1) shortopts longopts = Inr (res, []) \<and>
      getopt_loop opts ((a # pre1) @ [''--'']) shortopts longopts = Inr (res, [])"
    by (simp only: unfold append_Cons) simp
  then show ?thesis by blast
next
  fix v
  assume "rest = v # rest1" and all: "\<forall>xs. step (v # xs) = Inr (opts1, xs)"
  with ih have "a # rest = (a # v # pre1) @ stop @ args \<and>
      getopt_loop opts (a # v # pre1) shortopts longopts = Inr (res, []) \<and>
      getopt_loop opts ((a # v # pre1) @ [''--'']) shortopts longopts = Inr (res, [])"
    by (simp only: unfold append_Cons) simp
  then show ?thesis by blast
qed

lemma getopt_loop_form:
  "getopt_loop opts argv shortopts longopts = Inr (res, args) \<Longrightarrow>
   \<exists>pre stop. argv = pre @ stop @ args \<and>
     getopt_loop opts pre shortopts longopts = Inr (res, []) \<and>
     getopt_loop opts (pre @ [''--'']) shortopts longopts = Inr (res, []) \<and>
     (stop = [] \<and> (args = [] \<or> \<not> is_option_token (hd args)) \<or> stop = [''--''])"
proof (induction opts argv shortopts longopts rule: getopt_loop.induct)
  case (1 opts shortopts longopts)
  then have "[] = [] @ [] @ args \<and>
     getopt_loop opts [] shortopts longopts = Inr (res, []) \<and>
     getopt_loop opts ([] @ [''--'']) shortopts longopts = Inr (res, []) \<and>
     ([] = [] \<and> (args = [] \<or> \<not> is_option_token (hd args)) \<or> [] = [''--''])"
    by simp
  then show ?case by blast
next
  case (2 opts a rest shortopts longopts)
  show ?case
  proof (cases "is_option_token a")
    case False
    with 2(3) have "a # rest = [] @ [] @ args \<and>
       getopt_loop opts [] shortopts longopts = Inr (res, []) \<and>
       getopt_loop opts ([] @ [''--'']) shortopts longopts = Inr (res, []) \<and>
       ([] = [] \<and> (args = [] \<or> \<not> is_option_token (hd args)) \<or> [] = [''--''])"
      by (auto simp: is_option_token_def)
    then show ?thesis by blast
  next
    case tok: True
    show ?thesis
    proof (cases "a = ''--''")
      case True
      with 2(3) have "a # rest = [] @ [''--''] @ args \<and>
         getopt_loop opts [] shortopts longopts = Inr (res, []) \<and>
         getopt_loop opts ([] @ [''--'']) shortopts longopts = Inr (res, [])"
        by simp
      then show ?thesis by blast
    next
      case no_end: False
      show ?thesis
      proof (cases "prefix ''--'' a")
        case True
        have unfold: "getopt_loop opts (a # xs) shortopts longopts =
            (case do_longs opts (drop 2 a) longopts xs of
               Inl err \<Rightarrow> Inl err
             | Inr (opts', args') \<Rightarrow> getopt_loop opts' args' shortopts longopts)" for xs
          using tok no_end True by (intro getopt_loop_long) simp
        from 2(3) obtain opts1 rest1 where
          step: "do_longs opts (drop 2 a) longopts rest = Inr (opts1, rest1)" and
          cont: "getopt_loop opts1 rest1 shortopts longopts = Inr (res, args)"
          unfolding unfold by (auto split: sum.splits)
        from 2(1) [of "(opts1, rest1)" opts1 rest1] tok no_end True step cont
        obtain pre1 stop where ih: "rest1 = pre1 @ stop @ args"
          "getopt_loop opts1 pre1 shortopts longopts = Inr (res, [])"
          "getopt_loop opts1 (pre1 @ [''--'']) shortopts longopts = Inr (res, [])"
          "stop = [] \<and> (args = [] \<or> \<not> is_option_token (hd args)) \<or> stop = [''--'']"
          by (auto simp: is_option_token_def)
        from getopt_loop_extend [of rest1 rest "\<lambda>xs. do_longs opts (drop 2 a) longopts xs",
            OF do_longs_shape [OF step] unfold ih(1,2,3)] ih(4)
        show ?thesis by blast
      next
        case False
        have unfold: "getopt_loop opts (a # xs) shortopts longopts =
            (case do_shorts opts (drop 1 a) shortopts xs of
               Inl err \<Rightarrow> Inl err
             | Inr (opts', args') \<Rightarrow> getopt_loop opts' args' shortopts longopts)" for xs
          using tok False by (intro getopt_loop_short)
        from 2(3) obtain opts1 rest1 where
          step: "do_shorts opts (drop 1 a) shortopts rest = Inr (opts1, rest1)" and
          cont: "getopt_loop opts1 rest1 shortopts longopts = Inr (res, args)"
          unfolding unfold by (auto split: sum.splits)
        from 2(2) [of "(opts1, rest1)" opts1 rest1] tok no_end False step cont
        obtain pre1 stop where ih: "rest1 = pre1 @ stop @ args"
          "getopt_loop opts1 pre1 shortopts longopts = Inr (res, [])"
          "getopt_loop opts1 (pre1 @ [''--'']) shortopts longopts = Inr (res, [])"
          "stop = [] \<and> (args = [] \<or> \<not> is_option_token (hd args)) \<or> stop = [''--'']"
          by (auto simp: is_option_token_def)
        from getopt_loop_extend [of rest1 rest "\<lambda>xs. do_shorts opts (drop 1 a) shortopts xs",
            OF do_shorts_shape [OF step] unfold ih(1,2,3)] ih(4)
        show ?thesis by blast
      qed
    qed
  qed
qed

lemma getopt_form:
  assumes "getopt argv options long_options = Inr (opts, destination # trailing)"
  shows "\<exists>pre stop. option_run pre opts \<and> argv = pre @ stop @ destination # trailing \<and>
           (stop = [] \<and> \<not> is_option_token destination \<or> stop = [''--''])"
  using getopt_loop_form [OF assms [unfolded getopt_def]]
  by (auto simp: option_run_def getopt_def)

lemma option_run_terminator:
  assumes "option_run pre po"
  shows "getopt (pre @ ''--'' # rest) options long_options = Inr (po, rest)"
  using option_run_getopt [OF assms, of "''--'' # rest"]
  by (simp add: getopt_def)


lemma option_run_stop:
  assumes "option_run pre po"
    and "stop = [] \<and> \<not> is_option_token destination \<or> stop = [''--'']"
  shows "getopt (pre @ stop @ destination # rest) options long_options =
           Inr (po, destination # rest)"
  using assms(2) option_run_positional [OF assms(1), of destination rest]
    option_run_terminator [OF assms(1), of "destination # rest"]
  by auto

subsection \<open>Order\<close>



subsection \<open>The end of the options\<close>

text \<open>
  Claim C10, as stated: for every argument vector, option recognition stops at the first
  token that is not an option, and that token is the destination. It fails for a vector
  with the terminator: in \<^verbatim>\<open>["-t", "--", "-o", "ControlMaster=auto"]\<close> the
  parse stops at \<^verbatim>\<open>--\<close>, which is dropped, and the destination is the token
  \<^verbatim>\<open>-o\<close> after it, which looks like an option; it is neither the terminator nor
  the first token without a hyphen.
\<close>

theorem destination_after_terminator:
  "getopt [''-t'', ''--'', ''-o'', ''ControlMaster=auto''] options long_options =
     Inr ([(''-t'', '''')], [''-o'', ''ControlMaster=auto'']) \<and>
   plan (main None [''-t'', ''--'', ''-o'', ''ControlMaster=auto'']) =
     Some [''--name'', ''-o'', ''--'', ''-t'', ''ControlMaster=auto'']"
  by code_simp

text \<open>
  Claim C10, amended: option recognition ends after a run of complete options, either at
  the first token that is not read as an option (it does not start with a hyphen, or it
  is the single hyphen), which is the destination, or at the terminator
  \<^verbatim>\<open>--\<close>, which is dropped and after which the next token is the destination,
  whatever it looks like. Every token after the destination, whatever it looks like, is
  a trailing positional argument: it is in the plan as it is, after the separator and
  the forwarded-option tokens, and neither the grammar nor the Control filter applies
  to it. Every vector that parses with a destination has one of these two forms.
\<close>

theorem options_end_at_destination:
  "(option_run pre po \<and> (stop = [] \<and> \<not> is_option_token destination \<or> stop = [''--'']) \<longrightarrow>
      getopt (pre @ stop @ destination # rest) options long_options =
        Inr (po, destination # rest) \<and>
      main which_az (pre @ stop @ destination # rest) =
        Execvp ''az'' ([quoted which_az, ''ssh''] @ mode_tokens po @ [''--name'', destination] @
                       (if ssh_tokens po = [] \<and> rest = [] then []
                        else [''--''] @ ssh_tokens po @ rest))) \<and>
   (getopt argv options long_options = Inr (opts, d # args) \<longrightarrow>
      (\<exists>pre stop. option_run pre opts \<and> argv = pre @ stop @ d # args \<and>
         (stop = [] \<and> \<not> is_option_token d \<or> stop = [''--''])))"
proof (intro conjI impI)
  assume h: "option_run pre po \<and> (stop = [] \<and> \<not> is_option_token destination \<or> stop = [''--''])"
  then have parse: "getopt (pre @ stop @ destination # rest) options long_options =
      Inr (po, destination # rest)"
    by (intro option_run_stop) simp_all
  then show "getopt (pre @ stop @ destination # rest) options long_options =
      Inr (po, destination # rest)" .
  from main_eq [OF parse, of which_az]
  show "main which_az (pre @ stop @ destination # rest) =
        Execvp ''az'' ([quoted which_az, ''ssh''] @ mode_tokens po @ [''--name'', destination] @
                       (if ssh_tokens po = [] \<and> rest = [] then []
                        else [''--''] @ ssh_tokens po @ rest))"
    by (simp add: passthrough_def)
next
  assume "getopt argv options long_options = Inr (opts, d # args)"
  then show "\<exists>pre stop. option_run pre opts \<and> argv = pre @ stop @ d # args \<and>
         (stop = [] \<and> \<not> is_option_token d \<or> stop = [''--''])"
    by (rule getopt_form)
qed

theorem options_end_at_destination_witness:
  "option_run [''-t'', ''-o'', ''ControlPath=none''] [(''-t'', ''''), (''-o'', ''ControlPath=none'')] \<and>
   \<not> is_option_token ''host1'' \<and>
   plan (main None [''-t'', ''-o'', ''ControlPath=none'', ''host1'', ''-o'', ''ControlMaster=auto'',
                    ''-Z'', ''--bogus'', ''-p'']) =
     Some [''--name'', ''host1'', ''--'', ''-t'', ''-o'', ''ControlMaster=auto'', ''-Z'', ''--bogus'',
           ''-p''] \<and>
   plan (main None [''-t'', ''-o'', ''ControlPath=none'', ''--'', ''-o'', ''ControlMaster=auto'',
                    ''-Z'']) =
     Some [''--name'', ''-o'', ''--'', ''-t'', ''ControlMaster=auto'', ''-Z''] \<and>
   getopt [''-t'', ''host1'', ''-o'', ''ControlMaster=auto''] options long_options =
     Inr ([(''-t'', '''')], [''host1'', ''-o'', ''ControlMaster=auto'']) \<and>
   (\<exists>pre stop. option_run pre [(''-t'', '''')] \<and>
      [''-t'', ''host1'', ''-o'', ''ControlMaster=auto''] =
        pre @ stop @ [''host1'', ''-o'', ''ControlMaster=auto''] \<and>
      (stop = [] \<and> \<not> is_option_token ''host1'' \<or> stop = [''--'']))"
proof -
  let ?pre = "[''-t'', ''-o'', ''ControlPath=none'']"
  let ?po = "[(''-t'', ''''), (''-o'', ''ControlPath=none'')]"
  have h1: "option_run ?pre ?po"
    by code_simp
  have h2: "\<not> is_option_token ''host1''"
    by code_simp
  have h3: "getopt [''-t'', ''host1'', ''-o'', ''ControlMaster=auto''] options long_options =
      Inr ([(''-t'', '''')], [''host1'', ''-o'', ''ControlMaster=auto''])"
    by code_simp
  have m: "mode_tokens ?po = []" and s: "ssh_tokens ?po = [''-t'']"
    by code_simp+
  from options_end_at_destination
         [of ?pre ?po "[]" "''host1''" "[''-o'', ''ControlMaster=auto'', ''-Z'', ''--bogus'', ''-p'']"
            None "[''-t'', ''host1'', ''-o'', ''ControlMaster=auto'']" "[(''-t'', '''')]" "''host1''"
            "[''-o'', ''ControlMaster=auto'']"]
    options_end_at_destination
         [of ?pre ?po "[''--'']" "''-o''" "[''ControlMaster=auto'', ''-Z'']" None]
    h1 h2 h3
  show ?thesis unfolding m s by simp
qed

subsection \<open>Vectors that are usage errors\<close>

lemma getopt_form_no_destination:
  assumes "getopt argv options long_options = Inr (opts, [])"
  shows "\<exists>pre. option_run pre opts \<and> (argv = pre \<or> argv = pre @ [''--''])"
  using getopt_loop_form [OF assms [unfolded getopt_def]]
  by (auto simp: option_run_def getopt_def)

text \<open>
  Claim C5: a vector with no destination, with an unrecognized flag or with a
  value-bearing flag that lacks its value is a usage error: the program prints the
  error and the usage text on standard output and exits with status 2; it executes
  nothing, so there is no plan. In general this is what \<open>main\<close> does whenever \<open>getopt\<close>
  leaves no positional argument or raises its error, and a vector that leaves no
  positional argument is a run of complete options, with the terminator \<^verbatim>\<open>--\<close> after
  it or not. In particular, after any run \<open>pre\<close> of complete options (whatever other
  options are supplied), the usage error is what happens for
  \<^item> the end of the vector, or the terminator and then the end: there is no destination;
  \<^item> a cluster of short flags with a letter that the option string does not have, after
    no-value flags \<open>fl\<close> of the same cluster;
  \<^item> a long option of which no long option name is a continuation;
  \<^item> a value-bearing short flag that ends the vector;
  \<^item> a value-bearing long option that ends the vector.
  A flag is a token that \<open>getopt\<close> reads as an option: the tokens after the destination
  are not flags (claim C10).
\<close>

theorem usage_errors:
  "(getopt argv options long_options = Inr (opts, []) \<longrightarrow>
      main which_az argv = Exit [''Error: pop from empty list'', usage_text] 2 \<and>
      plan (main which_az argv) = None \<and>
      (\<exists>pre. option_run pre opts \<and> (argv = pre \<or> argv = pre @ [''--'']))) \<and>
   (getopt argv options long_options = Inl err \<longrightarrow>
      main which_az argv = Exit [''Error: '' @ str_of err, usage_text] 2 \<and>
      plan (main which_az argv) = None) \<and>
   (option_run pre po \<longrightarrow>
      main which_az pre = Exit [''Error: pop from empty list'', usage_text] 2 \<and>
      main which_az (pre @ [''--'']) = Exit [''Error: pop from empty list'', usage_text] 2) \<and>
   (option_run pre po \<and> list_all (\<lambda>c. c \<in> set no_value_options) fl \<and> c \<noteq> CHR ''-'' \<and>
    (c \<notin> set options \<or> c = CHR '':'') \<longrightarrow>
      main which_az (pre @ (''-'' @ fl @ c # cs) # rest) =
        Exit [''Error: option -'' @ [c] @ '' not recognized'', usage_text] 2) \<and>
   (option_run pre po \<and> name \<noteq> [] \<and>
    list_all (\<lambda>o'. \<not> prefix (fst (split_eq name)) o') long_options \<longrightarrow>
      main which_az (pre @ (''--'' @ name) # rest) =
        Exit [''Error: option --'' @ fst (split_eq name) @ '' not recognized'', usage_text] 2) \<and>
   (option_run pre po \<and> list_all (\<lambda>c. c \<in> set no_value_options) fl \<and> v \<in> set value_options \<longrightarrow>
      main which_az (pre @ [''-'' @ fl @ [v]]) =
        Exit [''Error: option -'' @ [v] @ '' requires argument'', usage_text] 2) \<and>
   (option_run pre po \<and> long \<in> set mode_dependent \<longrightarrow>
      main which_az (pre @ [long]) =
        Exit [''Error: option '' @ long @ '' requires argument'', usage_text] 2)"
proof (intro conjI impI)
  assume g: "getopt argv options long_options = Inr (opts, [])"
  then show m: "main which_az argv = Exit [''Error: pop from empty list'', usage_text] 2"
    by (rule main_no_destination)
  show "plan (main which_az argv) = None"
    unfolding m by simp
  from g show "\<exists>pre. option_run pre opts \<and> (argv = pre \<or> argv = pre @ [''--''])"
    by (rule getopt_form_no_destination)
next
  assume "getopt argv options long_options = Inl err"
  then show m: "main which_az argv = Exit [''Error: '' @ str_of err, usage_text] 2"
    by (rule main_getopt_error)
  show "plan (main which_az argv) = None"
    unfolding m by simp
next
  assume run: "option_run pre po"
  then show "main which_az pre = Exit [''Error: pop from empty list'', usage_text] 2"
    by (intro main_no_destination [of pre po]) (simp add: option_run_def)
  from run show "main which_az (pre @ [''--'']) =
      Exit [''Error: pop from empty list'', usage_text] 2"
    by (intro main_no_destination [of "pre @ [''--'']" po]) (simp add: option_run_def)
next
  assume "option_run pre po \<and> list_all (\<lambda>c. c \<in> set no_value_options) fl \<and> c \<noteq> CHR ''-'' \<and>
    (c \<notin> set options \<or> c = CHR '':'')"
  then show "main which_az (pre @ (''-'' @ fl @ c # cs) # rest) =
        Exit [''Error: option -'' @ [c] @ '' not recognized'', usage_text] 2"
    using option_run_error [of pre po _ _ which_az, OF _ getopt_unknown_flag [of fl c cs rest]]
    by simp
next
  assume "option_run pre po \<and> name \<noteq> [] \<and>
    list_all (\<lambda>o'. \<not> prefix (fst (split_eq name)) o') long_options"
  then show "main which_az (pre @ (''--'' @ name) # rest) =
        Exit [''Error: option --'' @ fst (split_eq name) @ '' not recognized'', usage_text] 2"
    using option_run_error [of pre po _ _ which_az, OF _ getopt_unknown_long [of name rest]]
    by simp
next
  assume "option_run pre po \<and> list_all (\<lambda>c. c \<in> set no_value_options) fl \<and> v \<in> set value_options"
  then show "main which_az (pre @ [''-'' @ fl @ [v]]) =
        Exit [''Error: option -'' @ [v] @ '' requires argument'', usage_text] 2"
    using option_run_error [of pre po _ _ which_az, OF _ getopt_missing_value [of fl v]]
    by simp
next
  assume "option_run pre po \<and> long \<in> set mode_dependent"
  then show "main which_az (pre @ [long]) =
        Exit [''Error: option '' @ long @ '' requires argument'', usage_text] 2"
    using option_run_error [of pre po _ _ which_az, OF _ getopt_missing_long_value [of long]]
    by simp
qed

theorem usage_errors_witness:
  "getopt [''-t'', ''--''] options long_options = Inr ([(''-t'', '''')], []) \<and>
   main None [''-t'', ''--''] = Exit [''Error: pop from empty list'', usage_text] 2 \<and>
   plan (main None [''-t'', ''--'']) = None \<and>
   getopt [''-4'', ''-o''] options long_options =
     Inl (GetoptError ''option -o requires argument'' ''o'') \<and>
   main None [''-4'', ''-o''] = Exit [''Error: option -o requires argument'', usage_text] 2 \<and>
   plan (main None [''-4'', ''-o'']) = None \<and>
   option_run [''-t'', ''-p'', ''22''] [(''-t'', ''''), (''-p'', ''22'')] \<and>
   main None [''-t'', ''-p'', ''22''] = Exit [''Error: pop from empty list'', usage_text] 2 \<and>
   main None [''-t'', ''-p'', ''22'', ''--''] =
     Exit [''Error: pop from empty list'', usage_text] 2 \<and>
   main None [''-t'', ''-p'', ''22'', ''-vZx'', ''host1''] =
     Exit [''Error: option -Z not recognized'', usage_text] 2 \<and>
   main None [''-t'', ''-p'', ''22'', ''--bogus=1'', ''host1''] =
     Exit [''Error: option --bogus not recognized'', usage_text] 2 \<and>
   main None [''-t'', ''-p'', ''22'', ''-vi''] =
     Exit [''Error: option -i requires argument'', usage_text] 2 \<and>
   main None [''-t'', ''-p'', ''22'', ''--local-user''] =
     Exit [''Error: option --local-user requires argument'', usage_text] 2"
proof -
  let ?pre = "[''-t'', ''-p'', ''22'']"
  let ?po = "[(''-t'', ''''), (''-p'', ''22'')]"
  have g1: "getopt [''-t'', ''--''] options long_options = Inr ([(''-t'', '''')], [])"
    by code_simp
  have g2: "getopt [''-4'', ''-o''] options long_options =
      Inl (GetoptError ''option -o requires argument'' ''o'')"
    by code_simp
  have run: "option_run ?pre ?po"
    by code_simp
  have fl: "list_all (\<lambda>c. c \<in> set no_value_options) ''v''"
    by code_simp
  have unknown: "CHR ''Z'' \<noteq> CHR ''-'' \<and> (CHR ''Z'' \<notin> set options \<or> CHR ''Z'' = CHR '':'')"
    by code_simp
  have long: "''bogus=1'' \<noteq> [] \<and>
      list_all (\<lambda>o'. \<not> prefix (fst (split_eq ''bogus=1'')) o') long_options"
    by code_simp
  have name: "fst (split_eq ''bogus=1'') = ''bogus''"
    by code_simp
  have val: "CHR ''i'' \<in> set value_options"
    by code_simp
  have md: "''--local-user'' \<in> set mode_dependent"
    by code_simp
  from usage_errors [of "[''-t'', ''--'']" "[(''-t'', '''')]" None _ ?pre ?po]
    usage_errors [of "[''-4'', ''-o'']" _ None "GetoptError ''option -o requires argument'' ''o''"
      ?pre ?po "''v''" "CHR ''Z''" "''x''" "[''host1'']" "''bogus=1''" "CHR ''i''" "''--local-user''"]
    g1 g2 run fl unknown long val md
  show ?thesis
    unfolding name by simp
qed

end
